theory Spec2Isabelle
  imports Complex_Main
begin

text \<open>
  A model of the option pricing page: the normal distribution function, the closed-form
  pricer \<open>blackScholes\<close>, the lattice pricer \<open>binomialTree\<close>, the grid generator
  \<open>generateHeatmapData\<close>, and the part of the page's effect that computes the single
  price pair and the strike axis. The definitions come first, each following the source
  function it models; the properties follow.
\<close>

section \<open>JavaScript numbers\<close>

text \<open>
  The pricing functions compute with JavaScript numbers. A number is modelled as a finite
  real, the negative zero, or one of the three special values of IEEE arithmetic:
  \<open>Fin a\<close> is the finite number of value \<open>a\<close>, with \<open>Fin 0\<close> the positive zero, and
  \<open>NZero\<close> is \<open>-0\<close>. Arithmetic on finite values is exact: the model has no rounding and
  no overflow or underflow of finite results. The zeros and the special values follow
  the IEEE rules that JavaScript implements: a zero result carries the sign the rules
  give it, a non-zero number divided by a zero is the infinity of the combined sign,
  \<open>0/0\<close>, \<open>Infinity - Infinity\<close> and \<open>Infinity * 0\<close> are \<open>NaN\<close>, and \<open>NaN\<close>
  propagates.
\<close>

datatype num = Fin real | NZero | PInf | NInf | NaN

text \<open>The real value of a finite number, its sign bit, and the kinds of numbers.\<close>

fun val :: "num \<Rightarrow> real" where
  "val (Fin a) = a"
| "val x = 0"

fun negative :: "num \<Rightarrow> bool" where
  "negative (Fin a) = (a < 0)"
| "negative NZero = True"
| "negative PInf = False"
| "negative NInf = True"
| "negative NaN = False"

fun is_zero :: "num \<Rightarrow> bool" where
  "is_zero (Fin a) = (a = 0)"
| "is_zero NZero = True"
| "is_zero x = False"

fun is_inf :: "num \<Rightarrow> bool" where
  "is_inf PInf = True"
| "is_inf NInf = True"
| "is_inf x = False"


text \<open>The infinity and the zero of a given sign.\<close>

definition signed_inf :: "bool \<Rightarrow> num" where
  "signed_inf positive = (if positive then PInf else NInf)"

definition signed_zero :: "bool \<Rightarrow> num" where
  "signed_zero positive = (if positive then Fin 0 else NZero)"

instantiation num :: uminus
begin

fun uminus_num :: "num \<Rightarrow> num" where
  "uminus_num (Fin a) = (if a = 0 then NZero else Fin (- a))"
| "uminus_num NZero = Fin 0"
| "uminus_num PInf = NInf"
| "uminus_num NInf = PInf"
| "uminus_num NaN = NaN"

instance ..

end

text \<open>
  A sum of finite numbers that is zero is \<open>+0\<close>, except \<open>-0 + -0\<close>, which is \<open>-0\<close>.
\<close>

instantiation num :: plus
begin

fun plus_num :: "num \<Rightarrow> num \<Rightarrow> num" where
  "plus_num NaN y = NaN"
| "plus_num x NaN = NaN"
| "plus_num (Fin a) (Fin b) = Fin (a + b)"
| "plus_num NZero NZero = NZero"
| "plus_num NZero (Fin b) = Fin b"
| "plus_num (Fin a) NZero = Fin a"
| "plus_num PInf NInf = NaN"
| "plus_num NInf PInf = NaN"
| "plus_num PInf y = PInf"
| "plus_num NInf y = NInf"
| "plus_num x PInf = PInf"
| "plus_num x NInf = NInf"

instance ..

end

instantiation num :: minus
begin

definition minus_num :: "num \<Rightarrow> num \<Rightarrow> num" where
  "minus_num x y = x + (- y)"

instance ..

end

text \<open>
  The sign of a product or quotient is positive when the operands have the same sign bit.
\<close>

instantiation num :: times
begin

definition times_num :: "num \<Rightarrow> num \<Rightarrow> num" where
  "times_num x y =
     (if x = NaN \<or> y = NaN then NaN
      else if (is_inf x \<and> is_zero y) \<or> (is_zero x \<and> is_inf y) then NaN
      else if is_inf x \<or> is_inf y then signed_inf (negative x = negative y)
      else if val x * val y = 0 then signed_zero (negative x = negative y)
      else Fin (val x * val y))"

instance ..

end

instantiation num :: divide
begin

definition divide_num :: "num \<Rightarrow> num \<Rightarrow> num" where
  "divide_num x y =
     (if x = NaN \<or> y = NaN then NaN
      else if (is_inf x \<and> is_inf y) \<or> (is_zero x \<and> is_zero y) then NaN
      else if is_inf x \<or> is_zero y then signed_inf (negative x = negative y)
      else if is_inf y \<or> is_zero x then signed_zero (negative x = negative y)
      else Fin (val x / val y))"

instance ..

end

instantiation num :: inverse
begin

definition inverse_num :: "num \<Rightarrow> num" where
  "inverse_num x = divide (Fin 1) x"

instance ..

end

text \<open>
  \<open>Math.max(a, b)\<close>: \<open>NaN\<close> when an argument is \<open>NaN\<close>, else the larger one, with
  \<open>+0\<close> larger than \<open>-0\<close>.
\<close>

fun Math_max :: "num \<Rightarrow> num \<Rightarrow> num" where
  "Math_max NaN y = NaN"
| "Math_max x NaN = NaN"
| "Math_max PInf y = PInf"
| "Math_max x PInf = PInf"
| "Math_max NInf y = y"
| "Math_max x NInf = x"
| "Math_max (Fin a) (Fin b) = Fin (max a b)"
| "Math_max NZero NZero = NZero"
| "Math_max NZero (Fin b) = (if b < 0 then NZero else Fin b)"
| "Math_max (Fin a) NZero = (if a < 0 then NZero else Fin a)"

fun Math_exp :: "num \<Rightarrow> num" where
  "Math_exp (Fin a) = Fin (exp a)"
| "Math_exp NZero = Fin 1"
| "Math_exp PInf = PInf"
| "Math_exp NInf = Fin 0"
| "Math_exp NaN = NaN"

fun Math_log :: "num \<Rightarrow> num" where
  "Math_log (Fin a) = (if a < 0 then NaN else if a = 0 then NInf else Fin (ln a))"
| "Math_log NZero = NInf"
| "Math_log PInf = PInf"
| "Math_log NInf = NaN"
| "Math_log NaN = NaN"

fun Math_sqrt :: "num \<Rightarrow> num" where
  "Math_sqrt (Fin a) = (if a < 0 then NaN else Fin (sqrt a))"
| "Math_sqrt NZero = NZero"
| "Math_sqrt PInf = PInf"
| "Math_sqrt NInf = NaN"
| "Math_sqrt NaN = NaN"

text \<open>
  \<open>Math.pow(x, n)\<close> for an integer exponent \<open>n\<close>, the only exponents the lattice uses:
  \<open>Math.pow(x, 0)\<close> is 1 for every \<open>x\<close>, also for \<open>NaN\<close>; a power of a zero or of an
  infinity is negative only for a negative base and an odd exponent.
\<close>

fun Math_pow :: "num \<Rightarrow> int \<Rightarrow> num" where
  "Math_pow x n =
     (if n = 0 then Fin 1
      else case x of
        NaN \<Rightarrow> NaN
      | Fin a \<Rightarrow>
          (if 0 < n then Fin (a ^ nat n)
           else if a = 0 then PInf
           else Fin (1 / a ^ nat (- n)))
      | NZero \<Rightarrow>
          (if 0 < n then signed_zero (even n) else signed_inf (even n))
      | PInf \<Rightarrow> (if 0 < n then PInf else Fin 0)
      | NInf \<Rightarrow>
          (if 0 < n then signed_inf (even n) else signed_zero (even n)))"

declare Math_pow.simps [simp del]

text \<open>
  A value read from an array or returned by a function is a number or \<open>undefined\<close>;
  arithmetic and \<open>Math.max\<close> convert it with \<open>ToNumber\<close>, which maps \<open>undefined\<close>
  to \<open>NaN\<close>.
\<close>

datatype jsval = Number num | Undefined

fun ToNumber :: "jsval \<Rightarrow> num" where
  "ToNumber (Number x) = x"
| "ToNumber Undefined = NaN"

text \<open>
  Arrays of numbers are lists. A read outside the array gives \<open>undefined\<close>. A write at
  an index below the length overwrites, a write at the length appends; a write beyond the
  length would leave holes, which read as \<open>undefined\<close> and are kept here as \<open>NaN\<close>
  (the pricing code only ever writes at an index up to the length).
\<close>

definition js_get :: "num list \<Rightarrow> nat \<Rightarrow> jsval" where
  "js_get xs i = (if i < length xs then Number (xs ! i) else Undefined)"

definition js_set :: "num list \<Rightarrow> nat \<Rightarrow> num \<Rightarrow> num list" where
  "js_set xs i v =
     (if i < length xs then xs[i := v]
      else xs @ replicate (i - length xs) NaN @ [v])"

section \<open>The normal distribution function\<close>

text \<open>
  \<open>erf\<close> is imported from the mathjs library and is not part of the repository: its
  values on finite arguments are a parameter \<open>erf\<close> of the model. At \<open>-0\<close>, where the
  error function is zero, mathjs returns \<open>-0\<close>. On the special values it returns the
  sign of an infinite argument (\<open>erf(Infinity) = 1\<close>, \<open>erf(-Infinity) = -1\<close>) and
  \<open>NaN\<close> for \<open>NaN\<close>.
\<close>

fun mathjs_erf :: "(real \<Rightarrow> real) \<Rightarrow> num \<Rightarrow> num" where
  "mathjs_erf erf (Fin a) = Fin (erf a)"
| "mathjs_erf erf NZero = (if erf 0 = 0 then NZero else Fin (erf 0))"
| "mathjs_erf erf PInf = Fin 1"
| "mathjs_erf erf NInf = Fin (- 1)"
| "mathjs_erf erf NaN = NaN"

definition normalCdf :: "(real \<Rightarrow> real) \<Rightarrow> num \<Rightarrow> num" where
  "normalCdf erf x = (Fin 1 + mathjs_erf erf (x / Math_sqrt (Fin 2))) / Fin 2"

section \<open>The analytic pricer\<close>

definition blackScholes ::
  "(real \<Rightarrow> real) \<Rightarrow> num \<Rightarrow> num \<Rightarrow> num \<Rightarrow> num \<Rightarrow> num \<Rightarrow> num \<Rightarrow> num \<times> num" where
  "blackScholes erf S K T r sigma q =
     (let d1 = (Math_log (S / K) + (r - q + Fin 0.5 * sigma * sigma) * T) / (sigma * Math_sqrt T);
          d2 = d1 - sigma * Math_sqrt T;
          callPrice = S * Math_exp (- q * T) * normalCdf erf d1
                      - K * Math_exp (- r * T) * normalCdf erf d2;
          putPrice = K * Math_exp (- r * T) * normalCdf erf (- d2)
                     - S * Math_exp (- q * T) * normalCdf erf (- d1)
      in (callPrice, putPrice))"

text \<open>
  The closed form as the specification writes it, over the reals: \<open>Phi\<close> is the normal
  distribution function obtained from \<open>erf\<close>.
\<close>

definition Phi :: "(real \<Rightarrow> real) \<Rightarrow> real \<Rightarrow> real" where
  "Phi erf x = (1 + erf (x / sqrt 2)) / 2"

definition bsm_d1 :: "real \<Rightarrow> real \<Rightarrow> real \<Rightarrow> real \<Rightarrow> real \<Rightarrow> real \<Rightarrow> real" where
  "bsm_d1 S K T r sigma q =
     (ln (S / K) + (r - q + 0.5 * sigma\<^sup>2) * T) / (sigma * sqrt T)"

definition bsm_d2 :: "real \<Rightarrow> real \<Rightarrow> real \<Rightarrow> real \<Rightarrow> real \<Rightarrow> real \<Rightarrow> real" where
  "bsm_d2 S K T r sigma q = bsm_d1 S K T r sigma q - sigma * sqrt T"

definition bsm_call ::
  "(real \<Rightarrow> real) \<Rightarrow> real \<Rightarrow> real \<Rightarrow> real \<Rightarrow> real \<Rightarrow> real \<Rightarrow> real \<Rightarrow> real" where
  "bsm_call erf S K T r sigma q =
     S * exp (- q * T) * Phi erf (bsm_d1 S K T r sigma q)
     - K * exp (- r * T) * Phi erf (bsm_d2 S K T r sigma q)"

definition bsm_put ::
  "(real \<Rightarrow> real) \<Rightarrow> real \<Rightarrow> real \<Rightarrow> real \<Rightarrow> real \<Rightarrow> real \<Rightarrow> real \<Rightarrow> real" where
  "bsm_put erf S K T r sigma q =
     K * exp (- r * T) * Phi erf (- bsm_d2 S K T r sigma q)
     - S * exp (- q * T) * Phi erf (- bsm_d1 S K T r sigma q)"

text \<open>A sample error function for concrete evaluations: odd and bounded by 1.\<close>

definition erf_sample :: "real \<Rightarrow> real" where
  "erf_sample x = x / (1 + \<bar>x\<bar>)"

section \<open>The lattice pricer\<close>

text \<open>
  The step count \<open>N\<close> is an integer-valued number (the model does not cover fractional,
  infinite or \<open>NaN\<close> step counts). The three \<open>for\<close> loops of \<open>binomialTree\<close> are
  the recursive functions \<open>prices_loop\<close>, \<open>inner_loop\<close> and \<open>outer_loop\<close>; the
  arrow function mapped over \<open>prices\<close> is \<open>payoff\<close>.
\<close>

function prices_loop :: "num \<Rightarrow> num \<Rightarrow> num \<Rightarrow> int \<Rightarrow> nat \<Rightarrow> num list \<Rightarrow> num list" where
  "prices_loop S u d N i prices =
     (if int i \<le> N
      then prices_loop S u d N (i + 1)
             (js_set prices i (S * Math_pow u (N - int i) * Math_pow d (int i)))
      else prices)"
  by pat_completeness auto
termination
  by (relation "measure (\<lambda>(S, u, d, N, i, prices). nat (N + 1 - int i))") auto

declare prices_loop.simps [simp del]

definition payoff :: "string \<Rightarrow> num \<Rightarrow> num \<Rightarrow> num" where
  "payoff optionType K price =
     (if optionType = ''call'' then Math_max (Fin 0) (price - K)
      else Math_max (Fin 0) (K - price))"

function inner_loop :: "num \<Rightarrow> num \<Rightarrow> num \<Rightarrow> int \<Rightarrow> nat \<Rightarrow> num list \<Rightarrow> num list" where
  "inner_loop r dt p j i optionPrices =
     (if int i \<le> j
      then inner_loop r dt p j (i + 1)
             (js_set optionPrices i
                (Math_exp (- r * dt)
                 * (p * ToNumber (js_get optionPrices i)
                    + (Fin 1 - p) * ToNumber (js_get optionPrices (i + 1)))))
      else optionPrices)"
  by pat_completeness auto
termination
  by (relation "measure (\<lambda>(r, dt, p, j, i, optionPrices). nat (j + 1 - int i))") auto

declare inner_loop.simps [simp del]

function outer_loop :: "num \<Rightarrow> num \<Rightarrow> num \<Rightarrow> int \<Rightarrow> num list \<Rightarrow> num list" where
  "outer_loop r dt p j optionPrices =
     (if 0 \<le> j
      then outer_loop r dt p (j - 1) (inner_loop r dt p j 0 optionPrices)
      else optionPrices)"
  by pat_completeness auto
termination
  by (relation "measure (\<lambda>(r, dt, p, j, optionPrices). nat (j + 1))") auto

declare outer_loop.simps [simp del]

definition binomialTree ::
  "num \<Rightarrow> num \<Rightarrow> num \<Rightarrow> num \<Rightarrow> num \<Rightarrow> num \<Rightarrow> int \<Rightarrow> string \<Rightarrow> jsval" where
  "binomialTree S K T r sigma q N optionType =
     (let dt = T / Fin (of_int N);
          u = Math_exp (sigma * Math_sqrt dt);
          d = Fin 1 / u;
          p = (Math_exp ((r - q) * dt) - d) / (u - d);
          prices = prices_loop S u d N 0 [];
          optionPrices = map (payoff optionType K) prices
      in js_get (outer_loop r dt p (N - 1) optionPrices) 0)"

section \<open>The lattice pricer in an arbitrary arithmetic\<close>

text \<open>
  What \<open>binomialTree\<close> returns does not depend on how numbers are represented or how the
  operations round: the same function is written here over any type of numbers, with
  the operations it uses as the fields of a record: \<open>+\<close>, \<open>-\<close>, \<open>*\<close>, \<open>/\<close>, unary
  minus, \<open>Math.exp\<close>, \<open>Math.sqrt\<close>, \<open>Math.pow\<close> at an integer exponent, \<open>Math.max\<close>,
  the number of an integer, and the number that \<open>undefined\<close> converts to. The result
  is \<open>None\<close> where the source returns \<open>undefined\<close>.
\<close>

record 'a arith =
  ar_add :: "'a \<Rightarrow> 'a \<Rightarrow> 'a"
  ar_sub :: "'a \<Rightarrow> 'a \<Rightarrow> 'a"
  ar_mul :: "'a \<Rightarrow> 'a \<Rightarrow> 'a"
  ar_div :: "'a \<Rightarrow> 'a \<Rightarrow> 'a"
  ar_neg :: "'a \<Rightarrow> 'a"
  ar_exp :: "'a \<Rightarrow> 'a"
  ar_sqrt :: "'a \<Rightarrow> 'a"
  ar_pow :: "'a \<Rightarrow> int \<Rightarrow> 'a"
  ar_max :: "'a \<Rightarrow> 'a \<Rightarrow> 'a"
  ar_int :: "int \<Rightarrow> 'a"
  ar_undefined :: "'a"

definition arr_get :: "'a arith \<Rightarrow> 'a list \<Rightarrow> nat \<Rightarrow> 'a" where
  "arr_get ar xs i = (if i < length xs then xs ! i else ar_undefined ar)"

definition arr_set :: "'a arith \<Rightarrow> 'a list \<Rightarrow> nat \<Rightarrow> 'a \<Rightarrow> 'a list" where
  "arr_set ar xs i v =
     (if i < length xs then xs[i := v]
      else xs @ replicate (i - length xs) (ar_undefined ar) @ [v])"

definition arr_read :: "'a list \<Rightarrow> nat \<Rightarrow> 'a option" where
  "arr_read xs i = (if i < length xs then Some (xs ! i) else None)"

function prices_loop_in ::
  "'a arith \<Rightarrow> 'a \<Rightarrow> 'a \<Rightarrow> 'a \<Rightarrow> int \<Rightarrow> nat \<Rightarrow> 'a list \<Rightarrow> 'a list" where
  "prices_loop_in ar S u d N i prices =
     (if int i \<le> N
      then prices_loop_in ar S u d N (i + 1)
             (arr_set ar prices i
                (ar_mul ar (ar_mul ar S (ar_pow ar u (N - int i))) (ar_pow ar d (int i))))
      else prices)"
  by pat_completeness auto
termination
  by (relation "measure (\<lambda>(ar, S, u, d, N, i, prices). nat (N + 1 - int i))") auto

declare prices_loop_in.simps [simp del]

definition payoff_in :: "'a arith \<Rightarrow> string \<Rightarrow> 'a \<Rightarrow> 'a \<Rightarrow> 'a" where
  "payoff_in ar optionType K price =
     (if optionType = ''call'' then ar_max ar (ar_int ar 0) (ar_sub ar price K)
      else ar_max ar (ar_int ar 0) (ar_sub ar K price))"

function inner_loop_in ::
  "'a arith \<Rightarrow> 'a \<Rightarrow> 'a \<Rightarrow> 'a \<Rightarrow> int \<Rightarrow> nat \<Rightarrow> 'a list \<Rightarrow> 'a list" where
  "inner_loop_in ar r dt p j i optionPrices =
     (if int i \<le> j
      then inner_loop_in ar r dt p j (i + 1)
             (arr_set ar optionPrices i
                (ar_mul ar (ar_exp ar (ar_mul ar (ar_neg ar r) dt))
                   (ar_add ar (ar_mul ar p (arr_get ar optionPrices i))
                      (ar_mul ar (ar_sub ar (ar_int ar 1) p)
                         (arr_get ar optionPrices (i + 1))))))
      else optionPrices)"
  by pat_completeness auto
termination
  by (relation "measure (\<lambda>(ar, r, dt, p, j, i, optionPrices). nat (j + 1 - int i))") auto

declare inner_loop_in.simps [simp del]

function outer_loop_in ::
  "'a arith \<Rightarrow> 'a \<Rightarrow> 'a \<Rightarrow> 'a \<Rightarrow> int \<Rightarrow> 'a list \<Rightarrow> 'a list" where
  "outer_loop_in ar r dt p j optionPrices =
     (if 0 \<le> j
      then outer_loop_in ar r dt p (j - 1) (inner_loop_in ar r dt p j 0 optionPrices)
      else optionPrices)"
  by pat_completeness auto
termination
  by (relation "measure (\<lambda>(ar, r, dt, p, j, optionPrices). nat (j + 1))") auto

declare outer_loop_in.simps [simp del]

definition binomialTree_in ::
  "'a arith \<Rightarrow> 'a \<Rightarrow> 'a \<Rightarrow> 'a \<Rightarrow> 'a \<Rightarrow> 'a \<Rightarrow> 'a \<Rightarrow> int \<Rightarrow> string \<Rightarrow> 'a option" where
  "binomialTree_in ar S K T r sigma q N optionType =
     (let dt = ar_div ar T (ar_int ar N);
          u = ar_exp ar (ar_mul ar sigma (ar_sqrt ar dt));
          d = ar_div ar (ar_int ar 1) u;
          p = ar_div ar (ar_sub ar (ar_exp ar (ar_mul ar (ar_sub ar r q) dt)) d)
                (ar_sub ar u d);
          prices = prices_loop_in ar S u d N 0 [];
          optionPrices = map (payoff_in ar optionType K) prices
      in arr_read (outer_loop_in ar r dt p (N - 1) optionPrices) 0)"

text \<open>The arithmetic of the number model above.\<close>

definition num_arith :: "num arith" where
  "num_arith =
     \<lparr>ar_add = (+), ar_sub = (-), ar_mul = (*), ar_div = (/), ar_neg = uminus,
      ar_exp = Math_exp, ar_sqrt = Math_sqrt, ar_pow = Math_pow, ar_max = Math_max,
      ar_int = (\<lambda>n. Fin (of_int n)), ar_undefined = NaN\<rparr>"

text \<open>
  The lattice algorithm as the specification words it, in the same arithmetic: the step
  size and the factors \<open>u\<close>, \<open>d\<close>, \<open>p\<close>, the \<open>N + 1\<close> terminal prices
  \<open>S u\<^sup>N\<^sup>-\<^sup>i d\<^sup>i\<close>, the payoff of each side, and a backward step that turns the values of
  step \<open>j + 1\<close> into the values of step \<open>j\<close>, one element fewer; the price is the single
  value left after \<open>N\<close> steps.
\<close>

datatype OptionSide = Call | Put

fun side_name :: "OptionSide \<Rightarrow> string" where
  "side_name Call = ''call''"
| "side_name Put = ''put''"

definition crr_dt :: "'a arith \<Rightarrow> 'a \<Rightarrow> nat \<Rightarrow> 'a" where
  "crr_dt ar T N = ar_div ar T (ar_int ar (int N))"

definition crr_u :: "'a arith \<Rightarrow> 'a \<Rightarrow> 'a \<Rightarrow> 'a" where
  "crr_u ar sigma dt = ar_exp ar (ar_mul ar sigma (ar_sqrt ar dt))"

definition crr_d :: "'a arith \<Rightarrow> 'a \<Rightarrow> 'a \<Rightarrow> 'a" where
  "crr_d ar sigma dt = ar_div ar (ar_int ar 1) (crr_u ar sigma dt)"

definition crr_p :: "'a arith \<Rightarrow> 'a \<Rightarrow> 'a \<Rightarrow> 'a \<Rightarrow> 'a \<Rightarrow> 'a" where
  "crr_p ar r q sigma dt =
     ar_div ar (ar_sub ar (ar_exp ar (ar_mul ar (ar_sub ar r q) dt)) (crr_d ar sigma dt))
       (ar_sub ar (crr_u ar sigma dt) (crr_d ar sigma dt))"

definition terminal_prices :: "'a arith \<Rightarrow> 'a \<Rightarrow> 'a \<Rightarrow> 'a \<Rightarrow> nat \<Rightarrow> 'a list" where
  "terminal_prices ar S u d N =
     map (\<lambda>i. ar_mul ar (ar_mul ar S (ar_pow ar u (int N - int i))) (ar_pow ar d (int i)))
       [0..<N + 1]"

fun terminal_payoff :: "'a arith \<Rightarrow> OptionSide \<Rightarrow> 'a \<Rightarrow> 'a \<Rightarrow> 'a" where
  "terminal_payoff ar Call K price = ar_max ar (ar_int ar 0) (ar_sub ar price K)"
| "terminal_payoff ar Put K price = ar_max ar (ar_int ar 0) (ar_sub ar K price)"

definition induction_step :: "'a arith \<Rightarrow> 'a \<Rightarrow> 'a \<Rightarrow> 'a \<Rightarrow> 'a list \<Rightarrow> 'a list" where
  "induction_step ar r dt p vs =
     map (\<lambda>i. ar_mul ar (ar_exp ar (ar_mul ar (ar_neg ar r) dt))
                (ar_add ar (ar_mul ar p (vs ! i))
                   (ar_mul ar (ar_sub ar (ar_int ar 1) p) (vs ! (i + 1)))))
       [0..<length vs - 1]"

definition lattice_price ::
  "'a arith \<Rightarrow> 'a \<Rightarrow> 'a \<Rightarrow> 'a \<Rightarrow> 'a \<Rightarrow> 'a \<Rightarrow> 'a \<Rightarrow> nat \<Rightarrow> OptionSide \<Rightarrow> 'a" where
  "lattice_price ar S K T r sigma q N side =
     (let dt = crr_dt ar T N;
          u = crr_u ar sigma dt;
          d = crr_d ar sigma dt;
          p = crr_p ar r q sigma dt;
          terminal = map (terminal_payoff ar side K) (terminal_prices ar S u d N)
      in ((induction_step ar r dt p) ^^ N) terminal ! 0)"

section \<open>The price grid and the single-point price\<close>

text \<open>
  The \<open>inputs\<close> object of the page: the market parameters and the strike range. The
  field \<open>in_S\<close> stands for \<open>inputs.S\<close>, and so on for the others.
\<close>

record inputs =
  in_S :: num
  in_K_min :: num
  in_K_max :: num
  in_K_specific :: num
  in_T :: num
  in_r :: num
  in_sigma :: num
  in_q :: num
  in_N :: int

text \<open>
  \<open>generateHeatmapData\<close> (second version of the page). \<open>heatmap_push\<close> is the body of
  the inner loop for the strike \<open>strikePrices[j]\<close> and the volatility \<open>volatilities[i]\<close>:
  it appends one price to each row, or nothing when the model is neither of the two
  names. \<open>heatmap_row\<close> is the loop over \<open>j\<close>, \<open>heatmap_rows\<close> the loop over \<open>i\<close>.
\<close>

definition heatmap_push ::
  "(real \<Rightarrow> real) \<Rightarrow> string \<Rightarrow> inputs \<Rightarrow> num \<Rightarrow> num \<Rightarrow> num list \<times> num list
   \<Rightarrow> num list \<times> num list" where
  "heatmap_push erf model inp K vol rows =
     (let callRow = fst rows; putRow = snd rows in
      if model = ''Black-Scholes'' then
        (let prices = blackScholes erf (in_S inp) K (in_T inp) (in_r inp)
                        (Math_max vol (Fin 0)) (in_q inp);
             callPrice = fst prices; putPrice = snd prices
         in (callRow @ [Math_max callPrice (Fin 0)], putRow @ [Math_max putPrice (Fin 0)]))
      else if model = ''Binomial Tree'' then
        (let callPrice = binomialTree (in_S inp) K (in_T inp) (in_r inp)
                           (Math_max vol (Fin 0)) (in_q inp) (in_N inp) ''call'';
             putPrice = binomialTree (in_S inp) K (in_T inp) (in_r inp)
                          (Math_max vol (Fin 0)) (in_q inp) (in_N inp) ''put''
         in (callRow @ [Math_max (ToNumber callPrice) (Fin 0)],
             putRow @ [Math_max (ToNumber putPrice) (Fin 0)]))
      else (callRow, putRow))"

function heatmap_row ::
  "(real \<Rightarrow> real) \<Rightarrow> string \<Rightarrow> inputs \<Rightarrow> num list \<Rightarrow> num \<Rightarrow> nat \<Rightarrow> num list \<times> num list
   \<Rightarrow> num list \<times> num list" where
  "heatmap_row erf model inp strikePrices vol j rows =
     (if j < length strikePrices
      then heatmap_row erf model inp strikePrices vol (j + 1)
             (heatmap_push erf model inp (strikePrices ! j) vol rows)
      else rows)"
  by pat_completeness auto
termination
  by (relation "measure (\<lambda>(erf, model, inp, strikePrices, vol, j, rows). length strikePrices - j)")
     auto

declare heatmap_row.simps [simp del]

function heatmap_rows ::
  "(real \<Rightarrow> real) \<Rightarrow> string \<Rightarrow> inputs \<Rightarrow> num list \<Rightarrow> num list \<Rightarrow> nat
   \<Rightarrow> num list list \<times> num list list \<Rightarrow> num list list \<times> num list list" where
  "heatmap_rows erf model inp strikePrices volatilities i dat =
     (if i < length volatilities
      then (let rows = heatmap_row erf model inp strikePrices (volatilities ! i) 0 ([], [])
            in heatmap_rows erf model inp strikePrices volatilities (i + 1)
                 (fst dat @ [fst rows], snd dat @ [snd rows]))
      else dat)"
  by pat_completeness auto
termination
  by (relation "measure (\<lambda>(erf, model, inp, strikePrices, volatilities, i, dat).
                  length volatilities - i)") auto

declare heatmap_rows.simps [simp del]

definition generateHeatmapData ::
  "(real \<Rightarrow> real) \<Rightarrow> string \<Rightarrow> inputs \<Rightarrow> num list \<Rightarrow> num list
   \<Rightarrow> num list list \<times> num list list" where
  "generateHeatmapData erf model inp strikePrices volatilities =
     heatmap_rows erf model inp strikePrices volatilities 0 ([], [])"

text \<open>
  The single-point computation at the start of the page's effect (second version): the
  pair handed to \<open>setResults\<close>, or \<open>None\<close> when the model is neither of the two names
  and \<open>setResults\<close> is not called.
\<close>

definition computeResults :: "(real \<Rightarrow> real) \<Rightarrow> string \<Rightarrow> inputs \<Rightarrow> (num \<times> num) option" where
  "computeResults erf model inp =
     (if model = ''Black-Scholes'' then
        (let prices = blackScholes erf (in_S inp) (in_K_specific inp) (in_T inp) (in_r inp)
                        (Math_max (in_sigma inp) (Fin 0)) (in_q inp);
             callPrice = fst prices; putPrice = snd prices
         in Some (Math_max callPrice (Fin 0), Math_max putPrice (Fin 0)))
      else if model = ''Binomial Tree'' then
        (let callPrice = binomialTree (in_S inp) (in_K_specific inp) (in_T inp) (in_r inp)
                           (Math_max (in_sigma inp) (Fin 0)) (in_q inp) (in_N inp) ''call'';
             putPrice = binomialTree (in_S inp) (in_K_specific inp) (in_T inp) (in_r inp)
                          (Math_max (in_sigma inp) (Fin 0)) (in_q inp) (in_N inp) ''put''
         in Some (Math_max (ToNumber callPrice) (Fin 0), Math_max (ToNumber putPrice) (Fin 0)))
      else None)"

text \<open>
  The first version of the page has the same two computations without the \<open>Math.max\<close>
  calls: volatilities and prices are used as they are.
\<close>

definition heatmap_push_v1 ::
  "(real \<Rightarrow> real) \<Rightarrow> string \<Rightarrow> inputs \<Rightarrow> num \<Rightarrow> num \<Rightarrow> jsval list \<times> jsval list
   \<Rightarrow> jsval list \<times> jsval list" where
  "heatmap_push_v1 erf model inp K vol rows =
     (let callRow = fst rows; putRow = snd rows in
      if model = ''Black-Scholes'' then
        (let prices = blackScholes erf (in_S inp) K (in_T inp) (in_r inp) vol (in_q inp);
             callPrice = fst prices; putPrice = snd prices
         in (callRow @ [Number callPrice], putRow @ [Number putPrice]))
      else if model = ''Binomial Tree'' then
        (let callPrice = binomialTree (in_S inp) K (in_T inp) (in_r inp) vol (in_q inp)
                           (in_N inp) ''call'';
             putPrice = binomialTree (in_S inp) K (in_T inp) (in_r inp) vol (in_q inp)
                          (in_N inp) ''put''
         in (callRow @ [callPrice], putRow @ [putPrice]))
      else (callRow, putRow))"

function heatmap_row_v1 ::
  "(real \<Rightarrow> real) \<Rightarrow> string \<Rightarrow> inputs \<Rightarrow> num list \<Rightarrow> num \<Rightarrow> nat \<Rightarrow> jsval list \<times> jsval list
   \<Rightarrow> jsval list \<times> jsval list" where
  "heatmap_row_v1 erf model inp strikePrices vol j rows =
     (if j < length strikePrices
      then heatmap_row_v1 erf model inp strikePrices vol (j + 1)
             (heatmap_push_v1 erf model inp (strikePrices ! j) vol rows)
      else rows)"
  by pat_completeness auto
termination
  by (relation "measure (\<lambda>(erf, model, inp, strikePrices, vol, j, rows). length strikePrices - j)")
     auto

declare heatmap_row_v1.simps [simp del]

function heatmap_rows_v1 ::
  "(real \<Rightarrow> real) \<Rightarrow> string \<Rightarrow> inputs \<Rightarrow> num list \<Rightarrow> num list \<Rightarrow> nat
   \<Rightarrow> jsval list list \<times> jsval list list \<Rightarrow> jsval list list \<times> jsval list list" where
  "heatmap_rows_v1 erf model inp strikePrices volatilities i dat =
     (if i < length volatilities
      then (let rows = heatmap_row_v1 erf model inp strikePrices (volatilities ! i) 0 ([], [])
            in heatmap_rows_v1 erf model inp strikePrices volatilities (i + 1)
                 (fst dat @ [fst rows], snd dat @ [snd rows]))
      else dat)"
  by pat_completeness auto
termination
  by (relation "measure (\<lambda>(erf, model, inp, strikePrices, volatilities, i, dat).
                  length volatilities - i)") auto

declare heatmap_rows_v1.simps [simp del]

definition generateHeatmapData_v1 ::
  "(real \<Rightarrow> real) \<Rightarrow> string \<Rightarrow> inputs \<Rightarrow> num list \<Rightarrow> num list
   \<Rightarrow> jsval list list \<times> jsval list list" where
  "generateHeatmapData_v1 erf model inp strikePrices volatilities =
     heatmap_rows_v1 erf model inp strikePrices volatilities 0 ([], [])"

definition computeResults_v1 ::
  "(real \<Rightarrow> real) \<Rightarrow> string \<Rightarrow> inputs \<Rightarrow> (jsval \<times> jsval) option" where
  "computeResults_v1 erf model inp =
     (if model = ''Black-Scholes'' then
        (let prices = blackScholes erf (in_S inp) (in_K_specific inp) (in_T inp) (in_r inp)
                        (in_sigma inp) (in_q inp);
             callPrice = fst prices; putPrice = snd prices
         in Some (Number callPrice, Number putPrice))
      else if model = ''Binomial Tree'' then
        (let callPrice = binomialTree (in_S inp) (in_K_specific inp) (in_T inp) (in_r inp)
                           (in_sigma inp) (in_q inp) (in_N inp) ''call'';
             putPrice = binomialTree (in_S inp) (in_K_specific inp) (in_T inp) (in_r inp)
                          (in_sigma inp) (in_q inp) (in_N inp) ''put''
         in Some (callPrice, putPrice))
      else None)"

section \<open>The strike axis\<close>

text \<open>
  \<open>toFixed2 x\<close> is the number read back by \<open>Number\<close> from the string \<open>x.toFixed(2)\<close>.
  For a magnitude below \<open>10\<^sup>2\<^sup>1\<close> the string holds the integer \<open>n\<close> for which
  \<open>n / 100\<close> is nearest to the magnitude (the larger \<open>n\<close> on a tie), written with two
  decimals, after a minus sign for a negative number, so that a small negative number
  reads back as \<open>-0\<close>; the string of \<open>-0\<close> itself has no sign. From \<open>10\<^sup>2\<^sup>1\<close> on, and
  for the special values, the string is the number's own text, which reads back as the
  number.
\<close>

fun toFixed2 :: "num \<Rightarrow> num" where
  "toFixed2 (Fin a) =
     (if \<bar>a\<bar> < 10 ^ 21
      then (if a < 0 then - Fin (real_of_int \<lfloor>\<bar>a\<bar> * 100 + 1 / 2\<rfloor> / 100)
            else Fin (real_of_int \<lfloor>\<bar>a\<bar> * 100 + 1 / 2\<rfloor> / 100))
      else Fin a)"
| "toFixed2 NZero = Fin 0"
| "toFixed2 x = x"

text \<open>
  The strike axis built in the page's effect (both versions):
  \<open>Array.from({ length: 10 }, (_, i) => (K_min + i * (K_max - K_min) / 9).toFixed(2))\<close>,
  converted with \<open>Number\<close> where it is passed to \<open>generateHeatmapData\<close>.
\<close>

definition strikePrices :: "inputs \<Rightarrow> num list" where
  "strikePrices inp =
     map (\<lambda>i. toFixed2 (in_K_min inp + Fin (real i) * (in_K_max inp - in_K_min inp) / Fin 9))
       [0..<10]"

text \<open>The initial value of the page's \<open>inputs\<close> state.\<close>

definition default_inputs :: inputs where
  "default_inputs =
     \<lparr>in_S = Fin 100.42, in_K_min = Fin 80, in_K_max = Fin 120, in_K_specific = Fin 93.45,
      in_T = Fin 1, in_r = Fin 0.05, in_sigma = Fin 0.2, in_q = Fin 0, in_N = 100\<rparr>"

text \<open>
  The single-point prices at the strike \<open>K\<close> and volatility \<open>vol\<close>, all other inputs
  unchanged (for a model that is one of the two names).
\<close>

definition grid_cell :: "(real \<Rightarrow> real) \<Rightarrow> string \<Rightarrow> inputs \<Rightarrow> num \<Rightarrow> num \<Rightarrow> num \<times> num" where
  "grid_cell erf model inp vol K =
     the (computeResults erf model (inp\<lparr>in_K_specific := K, in_sigma := vol\<rparr>))"

definition grid_cell_v1 ::
  "(real \<Rightarrow> real) \<Rightarrow> string \<Rightarrow> inputs \<Rightarrow> num \<Rightarrow> num \<Rightarrow> jsval \<times> jsval" where
  "grid_cell_v1 erf model inp vol K =
     the (computeResults_v1 erf model (inp\<lparr>in_K_specific := K, in_sigma := vol\<rparr>))"

text \<open>
  A number that is not negative: it is \<open>\<ge> 0\<close>, as both zeros and \<open>Infinity\<close> are, or it
  is \<open>NaN\<close>.
\<close>

fun not_negative :: "num \<Rightarrow> bool" where
  "not_negative (Fin a) = (0 \<le> a)"
| "not_negative NZero = True"
| "not_negative PInf = True"
| "not_negative NInf = False"
| "not_negative NaN = True"

section \<open>Arithmetic on finite numbers\<close>

lemma Fin_minus [simp]: "Fin a - Fin b = Fin (a - b)"
  by (simp add: minus_num_def)

lemma Fin_times_nonzero: "a * b \<noteq> 0 \<Longrightarrow> Fin a * Fin b = Fin (a * b)"
  by (simp add: times_num_def)

lemma Fin_times_pos_right: "0 < b \<Longrightarrow> Fin a * Fin b = Fin (a * b)"
  by (auto simp: times_num_def signed_zero_def)

lemma Fin_times_pos_left: "0 < a \<Longrightarrow> Fin a * Fin b = Fin (a * b)"
  by (auto simp: times_num_def signed_zero_def)

lemma Fin_times_nonneg: "0 \<le> a \<Longrightarrow> 0 \<le> b \<Longrightarrow> Fin a * Fin b = Fin (a * b)"
  by (auto simp: times_num_def signed_zero_def)

lemma Fin_divide_pos: "0 < b \<Longrightarrow> Fin a / Fin b = Fin (a / b)"
  by (auto simp: divide_num_def signed_zero_def)

lemma Fin_divide_nonzero: "a \<noteq> 0 \<Longrightarrow> b \<noteq> 0 \<Longrightarrow> Fin a / Fin b = Fin (a / b)"
  by (simp add: divide_num_def)

lemma NZero_times_pos: "0 < b \<Longrightarrow> NZero * Fin b = NZero"
  by (simp add: times_num_def signed_zero_def)

lemma NZero_divide_pos: "0 < b \<Longrightarrow> NZero / Fin b = NZero"
  by (simp add: divide_num_def signed_zero_def)

lemma nan_absorbs:
  "x * NaN = NaN" "NaN * x = NaN" "x + NaN = NaN" "NaN + x = NaN"
  "x / NaN = NaN" "NaN / x = NaN" "NaN - x = NaN" "x - NaN = NaN"
  by (simp_all add: times_num_def divide_num_def minus_num_def) (cases x; simp)+

lemma exp_neg_rate:
  assumes "0 < T"
  shows "Math_exp (- Fin q * Fin T) = Fin (exp (- q * T))"
proof (cases "q = 0")
  case True
  then show ?thesis using assms by (simp add: NZero_times_pos)
next
  case False
  then show ?thesis using assms by (simp add: Fin_times_pos_right)
qed

section \<open>Properties of the analytic pricer\<close>

lemma normalCdf_Fin: "normalCdf erf (Fin x) = Fin (Phi erf x)"
  by (simp add: normalCdf_def Phi_def Fin_divide_pos)

lemma normalCdf_NZero: "normalCdf erf NZero = Fin (Phi erf 0)"
  by (simp add: normalCdf_def Phi_def Fin_divide_pos NZero_divide_pos)

lemma normalCdf_neg_Fin: "normalCdf erf (- Fin x) = Fin (Phi erf (- x))"
  by (cases "x = 0") (simp_all add: normalCdf_Fin normalCdf_NZero)

text \<open>
  The quotient \<open>d1\<close> of a finite numerator and a finite non-zero denominator is read by
  the rest of \<open>blackScholes\<close> through its real value, whatever the sign of a zero.
\<close>

lemma quotient_uses:
  assumes "m \<noteq> 0"
  shows "normalCdf erf (Fin n / Fin m) = Fin (Phi erf (n / m))"
    and "normalCdf erf (- (Fin n / Fin m)) = Fin (Phi erf (- (n / m)))"
    and "Fin n / Fin m - Fin m = Fin (n / m - m)"
    and "normalCdf erf (- (Fin n / Fin m - Fin m)) = Fin (Phi erf (- (n / m - m)))"
    and "normalCdf erf (Fin n / Fin m - Fin m) = Fin (Phi erf (n / m - m))"
proof -
  have q: "Fin n / Fin m = Fin (n / m) \<or> (Fin n / Fin m = NZero \<and> n / m = 0)"
    using assms by (auto simp: divide_num_def signed_zero_def)
  have m': "- Fin m = Fin (- m)" using assms by simp
  show "normalCdf erf (Fin n / Fin m) = Fin (Phi erf (n / m))"
    using q by (auto simp: normalCdf_Fin normalCdf_NZero)
  show "normalCdf erf (- (Fin n / Fin m)) = Fin (Phi erf (- (n / m)))"
    using q by (auto simp: normalCdf_Fin normalCdf_NZero)
  show d2: "Fin n / Fin m - Fin m = Fin (n / m - m)"
    using q assms by (auto simp: minus_num_def m')
  show "normalCdf erf (- (Fin n / Fin m - Fin m)) = Fin (Phi erf (- (n / m - m)))"
    unfolding d2 by (rule normalCdf_neg_Fin)
  show "normalCdf erf (Fin n / Fin m - Fin m) = Fin (Phi erf (n / m - m))"
    unfolding d2 by (rule normalCdf_Fin)
qed

lemma blackScholes_Fin:
  assumes "0 < S" "0 < K" "0 < T" "sigma \<noteq> 0"
  shows "blackScholes erf (Fin S) (Fin K) (Fin T) (Fin r) (Fin sigma) (Fin q)
         = (Fin (bsm_call erf S K T r sigma q), Fin (bsm_put erf S K T r sigma q))"
proof -
  define n where "n = ln (S / K) + (r - q + 0.5 * sigma\<^sup>2) * T"
  define m where "m = sigma * sqrt T"
  have pos: "0 < S / K" using assms by simp
  have sk: "\<not> S / K < 0" "S / K \<noteq> 0" using pos by linarith+
  have lg: "Math_log (Fin S / Fin K) = Fin (ln (S / K))"
    using sk assms(2) by (simp add: Fin_divide_pos)
  have sq: "Fin 0.5 * Fin sigma * Fin sigma = Fin (0.5 * sigma\<^sup>2)"
    using assms(4) by (simp add: Fin_times_nonzero power2_eq_square)
  have num: "Math_log (Fin S / Fin K) + (Fin r - Fin q + Fin 0.5 * Fin sigma * Fin sigma) * Fin T
             = Fin n"
    unfolding lg sq using assms(3) by (simp add: Fin_times_pos_right n_def)
  have m0: "m \<noteq> 0" using assms by (simp add: m_def)
  have den: "Fin sigma * Math_sqrt (Fin T) = Fin m"
    using assms(3) by (simp add: Fin_times_pos_right m_def)
  have disc: "Fin S * Math_exp (- Fin q * Fin T) = Fin (S * exp (- q * T))"
    "Fin K * Math_exp (- Fin r * Fin T) = Fin (K * exp (- r * T))"
    using assms(1-3) by (simp_all add: exp_neg_rate Fin_times_pos_left del: uminus_num.simps)
  have pr: "Fin (a * exp b) * Fin c = Fin (a * exp b * c)" if "0 < a" for a b c :: real
    using that by (intro Fin_times_pos_left) simp
  have d1: "bsm_d1 S K T r sigma q = n / m"
    by (simp add: bsm_d1_def n_def m_def)
  have d2: "bsm_d2 S K T r sigma q = n / m - m"
    by (simp add: bsm_d2_def d1 m_def)
  note qu = quotient_uses [OF m0]
  show ?thesis
    unfolding blackScholes_def Let_def num den disc qu(1,2,4,5)
    by (simp add: pr assms(1,2) bsm_call_def bsm_put_def d1 d2 del: uminus_num.simps)
qed

lemma erf_sample_odd: "erf_sample (- y) = - erf_sample y"
  by (simp add: erf_sample_def)

lemma erf_sample_bounds: "- 1 \<le> erf_sample y \<and> erf_sample y \<le> 1"
proof -
  have pos: "0 < 1 + \<bar>y\<bar>" by simp
  have "- (1 + \<bar>y\<bar>) \<le> y" "y \<le> 1 + \<bar>y\<bar>" by simp_all
  then show ?thesis
    unfolding erf_sample_def using pos
    by (simp add: pos_le_divide_eq pos_divide_le_eq)
qed

lemma Phi_reflect:
  assumes "\<forall>y. erf (- y) = - erf y"
  shows "Phi erf x + Phi erf (- x) = 1"
proof -
  have "erf (- x / sqrt 2) = - erf (x / sqrt 2)"
    using assms by (metis minus_divide_left)
  then show ?thesis by (simp add: Phi_def field_simps)
qed

text \<open>
  C1. For finite parameters with \<open>S > 0\<close>, \<open>K > 0\<close>, \<open>T > 0\<close> and \<open>sigma > 0\<close>,
  \<open>blackScholes\<close> returns the pair of the closed-form call price
  \<open>S e\<^sup>-\<^sup>q\<^sup>T Phi(d1) - K e\<^sup>-\<^sup>r\<^sup>T Phi(d2)\<close> and put price
  \<open>K e\<^sup>-\<^sup>r\<^sup>T Phi(-d2) - S e\<^sup>-\<^sup>q\<^sup>T Phi(-d1)\<close>, where \<open>d1\<close> and \<open>d2\<close> are as in the
  specification and \<open>Phi\<close> is the value of \<open>normalCdf\<close>.
\<close>

theorem blackScholes_closed_form:
  assumes "0 < S" "0 < K" "0 < T" "0 < sigma"
  shows "blackScholes erf (Fin S) (Fin K) (Fin T) (Fin r) (Fin sigma) (Fin q)
           = (Fin (bsm_call erf S K T r sigma q), Fin (bsm_put erf S K T r sigma q))
         \<and> normalCdf erf (Fin (bsm_d1 S K T r sigma q)) = Fin (Phi erf (bsm_d1 S K T r sigma q))
         \<and> normalCdf erf (Fin (bsm_d2 S K T r sigma q)) = Fin (Phi erf (bsm_d2 S K T r sigma q))"
  using assms by (simp add: blackScholes_Fin normalCdf_Fin)

theorem blackScholes_closed_form_witness:
  "(0::real) < 1 \<and>
   blackScholes erf_sample (Fin 1) (Fin 1) (Fin 1) (Fin 0) (Fin 1) (Fin 0)
     = (Fin (bsm_call erf_sample 1 1 1 0 1 0), Fin (bsm_put erf_sample 1 1 1 0 1 0))
   \<and> bsm_d1 1 1 1 0 1 0 = 1 / 2 \<and> bsm_d2 1 1 1 0 1 0 = - 1 / 2"
  using blackScholes_closed_form [of 1 1 1 1 erf_sample 0 0]
  by (simp add: bsm_d1_def bsm_d2_def)

text \<open>
  C5. Put-call parity: for finite parameters with \<open>S > 0\<close>, \<open>K > 0\<close>, \<open>T > 0\<close> and
  \<open>sigma > 0\<close>, and an error function that is odd (as the library's is), the call price
  minus the put price returned by \<open>blackScholes\<close> is \<open>S e\<^sup>-\<^sup>q\<^sup>T - K e\<^sup>-\<^sup>r\<^sup>T\<close>.
\<close>

theorem put_call_parity:
  assumes "0 < S" "0 < K" "0 < T" "0 < sigma"
    and odd: "\<forall>y. erf (- y) = - erf y"
  shows "fst (blackScholes erf (Fin S) (Fin K) (Fin T) (Fin r) (Fin sigma) (Fin q))
         - snd (blackScholes erf (Fin S) (Fin K) (Fin T) (Fin r) (Fin sigma) (Fin q))
         = Fin (S * exp (- q * T) - K * exp (- r * T))"
proof -
  let ?d1 = "bsm_d1 S K T r sigma q" and ?d2 = "bsm_d2 S K T r sigma q"
  have p1: "Phi erf (- ?d1) = 1 - Phi erf ?d1"
    using Phi_reflect [OF odd, of ?d1] by simp
  have p2: "Phi erf (- ?d2) = 1 - Phi erf ?d2"
    using Phi_reflect [OF odd, of ?d2] by simp
  have "bsm_call erf S K T r sigma q - bsm_put erf S K T r sigma q
        = S * exp (- q * T) - K * exp (- r * T)"
    unfolding bsm_call_def bsm_put_def p1 p2 by (simp add: algebra_simps)
  then show ?thesis
    using assms(1-4) by (simp add: blackScholes_Fin minus_num_def)
qed

theorem put_call_parity_witness:
  "(0::real) < 1 \<and> (\<forall>y. erf_sample (- y) = - erf_sample y) \<and>
   fst (blackScholes erf_sample (Fin 1) (Fin 1) (Fin 1) (Fin 0) (Fin 1) (Fin 0))
   - snd (blackScholes erf_sample (Fin 1) (Fin 1) (Fin 1) (Fin 0) (Fin 1) (Fin 0))
   = Fin 0"
  using put_call_parity [of 1 1 1 1 erf_sample 0 0]
  by (simp add: erf_sample_odd)

text \<open>
  C8. For every real \<open>x\<close>, \<open>normalCdf(x)\<close> is \<open>(1 + erf(x / sqrt 2)) / 2\<close>; with an
  error function whose values lie between \<open>-1\<close> and \<open>1\<close>, the result lies in the
  interval from 0 to 1.
\<close>

theorem normalCdf_value_and_range:
  assumes "\<forall>y. - 1 \<le> erf y \<and> erf y \<le> 1"
  shows "normalCdf erf (Fin x) = Fin ((1 + erf (x / sqrt 2)) / 2)
         \<and> 0 \<le> (1 + erf (x / sqrt 2)) / 2 \<and> (1 + erf (x / sqrt 2)) / 2 \<le> 1"
proof -
  have "- 1 \<le> erf (x / sqrt 2)" "erf (x / sqrt 2) \<le> 1"
    using assms by simp_all
  then show ?thesis by (simp add: normalCdf_Fin Phi_def)
qed

theorem normalCdf_value_and_range_witness:
  "(\<forall>y. - 1 \<le> erf_sample y \<and> erf_sample y \<le> 1)
   \<and> normalCdf erf_sample (Fin 0) = Fin (1 / 2)
   \<and> (0::real) \<le> (1 + erf_sample (0 / sqrt 2)) / 2 \<and> (1 + erf_sample (0 / sqrt 2)) / 2 \<le> 1"
proof -
  have h: "\<forall>y. - 1 \<le> erf_sample y \<and> erf_sample y \<le> 1"
    using erf_sample_bounds by blast
  have z: "erf_sample (0 / sqrt 2) = 0"
    by (simp add: erf_sample_def)
  from normalCdf_value_and_range [OF h, of 0] h z show ?thesis
    by simp
qed

section \<open>Properties of the lattice pricer\<close>

lemma arr_set_append: "arr_set ar xs (length xs) v = xs @ [v]"
  by (simp add: arr_set_def)

lemma prices_loop_in_terminal:
  assumes "i \<le> n + 1" "length xs = i"
  shows "prices_loop_in ar S u d (int n) i xs
         = xs @ map (\<lambda>k. ar_mul ar (ar_mul ar S (ar_pow ar u (int n - int k)))
                              (ar_pow ar d (int k))) [i..<n + 1]"
  using assms
proof (induction "n + 1 - i" arbitrary: i xs)
  case 0
  then have "i = n + 1" by simp
  then show ?case by (subst prices_loop_in.simps) simp
next
  case (Suc m)
  then have le: "i \<le> n" by simp
  let ?f = "\<lambda>k. ar_mul ar (ar_mul ar S (ar_pow ar u (int n - int k))) (ar_pow ar d (int k))"
  have step: "arr_set ar xs i (?f i) = xs @ [?f i]"
    using Suc.prems(2) arr_set_append [of ar xs] by simp
  have ih: "prices_loop_in ar S u d (int n) (i + 1) (xs @ [?f i])
            = (xs @ [?f i]) @ map ?f [i + 1..<n + 1]"
    using Suc.hyps(2) Suc.prems le by (intro Suc.hyps(1)) simp_all
  have up: "[i..<n + 1] = i # [i + 1..<n + 1]"
    using le by (simp add: upt_conv_Cons)
  have "prices_loop_in ar S u d (int n) i xs
        = prices_loop_in ar S u d (int n) (i + 1) (arr_set ar xs i (?f i))"
    using le by (subst prices_loop_in.simps) (simp only: of_nat_le_iff if_True)
  also have "\<dots> = (xs @ [?f i]) @ map ?f [i + 1..<n + 1]"
    by (simp only: step ih)
  also have "\<dots> = xs @ map ?f [i..<n + 1]"
    by (simp only: up append_assoc append_Cons append_Nil list.map)
  finally show ?case .
qed

lemma inner_loop_in_pointwise:
  assumes "j + 1 < length xs"
  shows "inner_loop_in ar r dt p (int j) i xs
         = map (\<lambda>k. if i \<le> k \<and> k \<le> j
                     then ar_mul ar (ar_exp ar (ar_mul ar (ar_neg ar r) dt))
                            (ar_add ar (ar_mul ar p (xs ! k))
                               (ar_mul ar (ar_sub ar (ar_int ar 1) p) (xs ! (k + 1))))
                     else xs ! k) [0..<length xs]"
  using assms
proof (induction "j + 1 - i" arbitrary: i xs)
  case 0
  then have "\<not> int i \<le> int j" by simp
  then have "inner_loop_in ar r dt p (int j) i xs = xs"
    by (subst inner_loop_in.simps) simp
  moreover have "map (\<lambda>k. if i \<le> k \<and> k \<le> j
                     then ar_mul ar (ar_exp ar (ar_mul ar (ar_neg ar r) dt))
                            (ar_add ar (ar_mul ar p (xs ! k))
                               (ar_mul ar (ar_sub ar (ar_int ar 1) p) (xs ! (k + 1))))
                     else xs ! k) [0..<length xs] = xs"
    using 0 by (intro nth_equalityI) auto
  ultimately show ?case by simp
next
  case (Suc m)
  then have le: "i \<le> j" by simp
  let ?g = "\<lambda>ys k. ar_mul ar (ar_exp ar (ar_mul ar (ar_neg ar r) dt))
                      (ar_add ar (ar_mul ar p (ys ! k))
                         (ar_mul ar (ar_sub ar (ar_int ar 1) p) (ys ! (k + 1))))"
  let ?xs' = "xs[i := ?g xs i]"
  have in1: "i < length xs" "i + 1 < length xs" using le Suc.prems by simp_all
  have upd: "arr_set ar xs i
               (ar_mul ar (ar_exp ar (ar_mul ar (ar_neg ar r) dt))
                  (ar_add ar (ar_mul ar p (arr_get ar xs i))
                     (ar_mul ar (ar_sub ar (ar_int ar 1) p) (arr_get ar xs (i + 1)))))
             = ?xs'"
    using in1 by (simp add: arr_set_def arr_get_def)
  have ih: "inner_loop_in ar r dt p (int j) (i + 1) ?xs'
            = map (\<lambda>k. if i + 1 \<le> k \<and> k \<le> j then ?g ?xs' k else ?xs' ! k) [0..<length ?xs']"
    using Suc.hyps(2) Suc.prems le by (intro Suc.hyps(1)) simp_all
  have eq: "map (\<lambda>k. if i + 1 \<le> k \<and> k \<le> j then ?g ?xs' k else ?xs' ! k) [0..<length ?xs']
            = map (\<lambda>k. if i \<le> k \<and> k \<le> j then ?g xs k else xs ! k) [0..<length xs]"
    using in1 le by (intro nth_equalityI) (auto simp: nth_list_update)
  have "inner_loop_in ar r dt p (int j) i xs
        = inner_loop_in ar r dt p (int j) (i + 1)
            (arr_set ar xs i
               (ar_mul ar (ar_exp ar (ar_mul ar (ar_neg ar r) dt))
                  (ar_add ar (ar_mul ar p (arr_get ar xs i))
                     (ar_mul ar (ar_sub ar (ar_int ar 1) p) (arr_get ar xs (i + 1))))))"
    using le by (subst inner_loop_in.simps) (simp only: of_nat_le_iff if_True)
  also have "\<dots> = map (\<lambda>k. if i \<le> k \<and> k \<le> j then ?g xs k else xs ! k) [0..<length xs]"
    by (simp only: upd ih eq)
  finally show ?case .
qed

lemma inner_loop_in_step:
  assumes "j + 1 < length xs"
  shows "length (inner_loop_in ar r dt p (int j) 0 xs) = length xs"
    and "take (j + 1) (inner_loop_in ar r dt p (int j) 0 xs)
         = induction_step ar r dt p (take (j + 2) xs)"
proof -
  note eq = inner_loop_in_pointwise [OF assms, of ar r dt p 0]
  show "length (inner_loop_in ar r dt p (int j) 0 xs) = length xs"
    unfolding eq by simp
  show "take (j + 1) (inner_loop_in ar r dt p (int j) 0 xs)
         = induction_step ar r dt p (take (j + 2) xs)"
    unfolding eq induction_step_def using assms
    by (intro nth_equalityI) (auto simp del: upt_Suc)
qed

lemma outer_loop_in_root:
  assumes "m < length xs"
  shows "length (outer_loop_in ar r dt p (int m - 1) xs) = length xs
         \<and> outer_loop_in ar r dt p (int m - 1) xs ! 0
             = ((induction_step ar r dt p) ^^ m) (take (m + 1) xs) ! 0"
  using assms
proof (induction m arbitrary: xs)
  case 0
  have "outer_loop_in ar r dt p (int 0 - 1) xs = xs"
    by (subst outer_loop_in.simps) simp
  moreover have "xs ! 0 = take (0 + 1) xs ! 0" by simp
  ultimately show ?case by simp
next
  case (Suc m)
  let ?ys = "inner_loop_in ar r dt p (int m) 0 xs"
  have lt: "m + 1 < length xs" using Suc.prems by simp
  have ys: "length ?ys = length xs"
    "take (m + 1) ?ys = induction_step ar r dt p (take (m + 2) xs)"
    using inner_loop_in_step [OF lt, of ar r dt p] by simp_all
  have "m < length ?ys" using ys(1) Suc.prems by simp
  from Suc.IH [OF this] have zs:
    "length (outer_loop_in ar r dt p (int m - 1) ?ys) = length ?ys"
    "outer_loop_in ar r dt p (int m - 1) ?ys ! 0
       = ((induction_step ar r dt p) ^^ m) (take (m + 1) ?ys) ! 0"
    by simp_all
  have unf: "outer_loop_in ar r dt p (int (Suc m) - 1) xs
             = outer_loop_in ar r dt p (int m - 1) ?ys"
    by (subst outer_loop_in.simps) simp
  have "((induction_step ar r dt p) ^^ m) (take (m + 1) ?ys)
        = ((induction_step ar r dt p) ^^ Suc m) (take (Suc m + 1) xs)"
    using ys(2) by (simp add: funpow_swap1)
  then show ?case
    unfolding unf using zs ys(1) by simp
qed

lemma payoff_in_side:
  "payoff_in ar optionType K
   = terminal_payoff ar (if optionType = ''call'' then Call else Put) K"
  by (intro ext) (simp add: payoff_in_def)

lemma binomialTree_in_lattice:
  "binomialTree_in ar S K T r sigma q (int N) optionType
   = Some (lattice_price ar S K T r sigma q N (if optionType = ''call'' then Call else Put))"
proof -
  let ?side = "if optionType = ''call'' then Call else Put"
  let ?dt = "crr_dt ar T N"
  let ?u = "crr_u ar sigma ?dt"
  let ?d = "crr_d ar sigma ?dt"
  let ?p = "crr_p ar r q sigma ?dt"
  let ?terminal = "map (terminal_payoff ar ?side K) (terminal_prices ar S ?u ?d N)"
  have prices: "prices_loop_in ar S u d (int N) 0 [] = terminal_prices ar S u d N" for u d
    using prices_loop_in_terminal [of 0 N "[]" ar S u d] by (simp add: terminal_prices_def)
  have len: "length ?terminal = N + 1"
    by (simp add: terminal_prices_def)
  then have "N < length ?terminal" by simp
  from outer_loop_in_root [OF this, of ar r ?dt ?p] have root:
    "length (outer_loop_in ar r ?dt ?p (int N - 1) ?terminal) = length ?terminal"
    "outer_loop_in ar r ?dt ?p (int N - 1) ?terminal ! 0
       = ((induction_step ar r ?dt ?p) ^^ N) (take (N + 1) ?terminal) ! 0"
    by simp_all
  have res: "arr_read (outer_loop_in ar r ?dt ?p (int N - 1) ?terminal) 0
             = Some (lattice_price ar S K T r sigma q N ?side)"
    using root len by (simp add: arr_read_def lattice_price_def Let_def)
  have "binomialTree_in ar S K T r sigma q (int N) optionType
        = arr_read (outer_loop_in ar r ?dt ?p (int N - 1) ?terminal) 0"
    unfolding binomialTree_in_def Let_def payoff_in_side prices
      crr_p_def crr_d_def crr_u_def crr_dt_def ..
  then show ?thesis by (simp only: res)
qed

text \<open>The number model's \<open>binomialTree\<close> is the instance at the model's arithmetic.\<close>

lemma prices_loop_num:
  "prices_loop S u d N i prices = prices_loop_in num_arith S u d N i prices"
proof (induction S u d N i prices rule: prices_loop.induct)
  case (1 S u d N i prices)
  show ?case
  proof (cases "int i \<le> N")
    case True
    show ?thesis
      using True "1.IH" [OF True]
      by (subst prices_loop.simps, subst prices_loop_in.simps)
         (simp add: num_arith_def js_set_def arr_set_def)
  next
    case False
    then show ?thesis
      by (subst prices_loop.simps, subst prices_loop_in.simps) simp
  qed
qed

lemma inner_loop_num:
  "inner_loop r dt p j i xs = inner_loop_in num_arith r dt p j i xs"
proof (induction r dt p j i xs rule: inner_loop.induct)
  case (1 r dt p j i xs)
  have get: "ToNumber (js_get xs k) = arr_get num_arith xs k" for k
    by (simp add: js_get_def arr_get_def num_arith_def)
  show ?case
  proof (cases "int i \<le> j")
    case True
    show ?thesis
      using True "1.IH" [OF True]
      by (subst inner_loop.simps, subst inner_loop_in.simps)
         (simp add: get, simp add: num_arith_def js_set_def arr_set_def)
  next
    case False
    then show ?thesis
      by (subst inner_loop.simps, subst inner_loop_in.simps) simp
  qed
qed

lemma outer_loop_num:
  "outer_loop r dt p j xs = outer_loop_in num_arith r dt p j xs"
proof (induction r dt p j xs rule: outer_loop.induct)
  case (1 r dt p j xs)
  show ?case
  proof (cases "0 \<le> j")
    case True
    show ?thesis
      using True "1.IH" [OF True]
      by (subst outer_loop.simps, subst outer_loop_in.simps) (simp add: inner_loop_num)
  next
    case False
    then show ?thesis
      by (subst outer_loop.simps, subst outer_loop_in.simps) simp
  qed
qed

lemma binomialTree_num:
  "binomialTree S K T r sigma q N optionType
   = (case binomialTree_in num_arith S K T r sigma q N optionType of
        None \<Rightarrow> Undefined | Some x \<Rightarrow> Number x)"
proof -
  have pay: "payoff optionType K = payoff_in num_arith optionType K"
    by (intro ext) (simp add: payoff_def payoff_in_def num_arith_def)
  have rd: "js_get xs 0 = (case arr_read xs 0 of None \<Rightarrow> Undefined | Some x \<Rightarrow> Number x)"
    for xs by (simp add: js_get_def arr_read_def)
  show ?thesis
    unfolding binomialTree_def binomialTree_in_def Let_def prices_loop_num outer_loop_num pay rd
    by (simp add: num_arith_def)
qed

text \<open>
  C2. For every integer step count \<open>N \<ge> 1\<close> and all other parameters, \<open>binomialTree\<close>
  returns exactly the price of the specification's lattice algorithm (the factors
  \<open>dt\<close>, \<open>u\<close>, \<open>d\<close>, \<open>p\<close>, the \<open>N + 1\<close> terminal prices and payoffs of the requested
  side, and \<open>N\<close> backward steps, each one element narrower, down to the root value),
  evaluated in the same arithmetic. This holds in every arithmetic, hence in JavaScript's
  with its rounding, overflow and special values, and in particular in the number model
  used here.
\<close>

theorem binomialTree_is_lattice:
  assumes "1 \<le> N"
  shows "binomialTree_in ar S K T r sigma q (int N) (side_name side)
           = Some (lattice_price ar S K T r sigma q N side)
         \<and> binomialTree S' K' T' r' sigma' q' (int N) (side_name side)
           = Number (lattice_price num_arith S' K' T' r' sigma' q' N side)"
proof -
  have s: "(if side_name side = ''call'' then Call else Put) = side"
    by (cases side) simp_all
  show ?thesis
    using binomialTree_in_lattice [of ar S K T r sigma q N "side_name side"]
      binomialTree_in_lattice [of num_arith S' K' T' r' sigma' q' N "side_name side"]
    by (simp add: binomialTree_num s)
qed

theorem binomialTree_is_lattice_witness:
  "(1::nat) \<le> 1 \<and>
   binomialTree_in num_arith (Fin 1) (Fin 1) (Fin 1) (Fin 0) (Fin 1) (Fin 0) 1 ''call''
     = Some (lattice_price num_arith (Fin 1) (Fin 1) (Fin 1) (Fin 0) (Fin 1) (Fin 0) 1 Call)
   \<and> binomialTree (Fin 1) (Fin 1) (Fin 1) (Fin 0) (Fin 1) (Fin 0) 1 ''call''
     = Number (lattice_price num_arith (Fin 1) (Fin 1) (Fin 1) (Fin 0) (Fin 1) (Fin 0) 1 Call)"
  using binomialTree_is_lattice [where N = 1 and ar = num_arith and side = Call
      and S = "Fin 1" and K = "Fin 1" and T = "Fin 1" and r = "Fin 0" and sigma = "Fin 1"
      and q = "Fin 0" and S' = "Fin 1" and K' = "Fin 1" and T' = "Fin 1" and r' = "Fin 0"
      and sigma' = "Fin 1" and q' = "Fin 0"]
  by simp

section \<open>The option type\<close>

lemma lattice_price_zero_steps:
  "lattice_price num_arith (Fin S) K T r sigma q 0 side
   = terminal_payoff num_arith side K (Fin S)"
  by (simp add: lattice_price_def Let_def terminal_prices_def num_arith_def Math_pow.simps
      Fin_times_pos_right)

text \<open>
  C10. For every option type string and every step count \<open>N \<ge> 0\<close>, \<open>binomialTree\<close>
  returns the lattice price built on the call payoff \<open>max(0, price - K)\<close> when the
  string is exactly \<open>call\<close>, and on the put payoff \<open>max(0, K - price)\<close> for every other
  string; it returns a number and raises no error. This holds in every arithmetic and in
  the number model. For every integer step count, negative ones too, it returns for a
  string other than \<open>call\<close> what it returns for \<open>put\<close>.
\<close>

theorem binomialTree_optionType:
  "binomialTree_in ar S K T r sigma q (int N) optionType
     = Some (lattice_price ar S K T r sigma q N (if optionType = ''call'' then Call else Put))
   \<and> binomialTree S' K' T' r' sigma' q' (int N) optionType
     = Number (lattice_price num_arith S' K' T' r' sigma' q' N
                 (if optionType = ''call'' then Call else Put))
   \<and> terminal_payoff ar Call K price = ar_max ar (ar_int ar 0) (ar_sub ar price K)
   \<and> terminal_payoff ar Put K price = ar_max ar (ar_int ar 0) (ar_sub ar K price)
   \<and> binomialTree S' K' T' r' sigma' q' M optionType
     = binomialTree S' K' T' r' sigma' q' M (if optionType = ''call'' then ''call'' else ''put'')"
proof -
  have "payoff optionType = payoff (if optionType = ''call'' then ''call'' else ''put'')"
    by (intro ext) (simp add: payoff_def)
  then have "binomialTree S' K' T' r' sigma' q' M optionType
     = binomialTree S' K' T' r' sigma' q' M (if optionType = ''call'' then ''call'' else ''put'')"
    unfolding binomialTree_def by (simp only:)
  then show ?thesis
    by (simp add: binomialTree_in_lattice binomialTree_num)
qed

theorem binomialTree_optionType_witness:
  "binomialTree (Fin 3) (Fin 1) (Fin 1) (Fin 0) (Fin 1) (Fin 0) 0 ''call'' = Number (Fin 2)
   \<and> binomialTree (Fin 3) (Fin 1) (Fin 1) (Fin 0) (Fin 1) (Fin 0) 0 ''put'' = Number (Fin 0)
   \<and> binomialTree (Fin 3) (Fin 1) (Fin 1) (Fin 0) (Fin 1) (Fin 0) 0 ''Call'' = Number (Fin 0)"
proof -
  have c: "lattice_price num_arith (Fin 3) (Fin 1) (Fin 1) (Fin 0) (Fin 1) (Fin 0) 0 Call = Fin 2"
    unfolding lattice_price_zero_steps by (simp add: num_arith_def)
  have p: "lattice_price num_arith (Fin 3) (Fin 1) (Fin 1) (Fin 0) (Fin 1) (Fin 0) 0 Put = Fin 0"
    unfolding lattice_price_zero_steps by (simp add: num_arith_def)
  note t = binomialTree_optionType [where N = 0 and S' = "Fin 3" and K' = "Fin 1"
      and T' = "Fin 1" and r' = "Fin 0" and sigma' = "Fin 1" and q' = "Fin 0"
      and ar = num_arith and S = "Fin 3" and K = "Fin 1" and T = "Fin 1" and r = "Fin 0"
      and sigma = "Fin 1" and q = "Fin 0" and price = "Fin 3" and M = "- 1"]
  from t [where optionType = "''call''"] t [where optionType = "''put''"]
    t [where optionType = "''Call''"]
  show ?thesis by (simp add: c p)
qed

section \<open>Properties of the price grid\<close>

lemma heatmap_push_grid_cell:
  assumes "model = ''Black-Scholes'' \<or> model = ''Binomial Tree''"
  shows "heatmap_push erf model inp K vol rows
         = (fst rows @ [fst (grid_cell erf model inp vol K)],
            snd rows @ [snd (grid_cell erf model inp vol K)])"
  using assms by (auto simp: grid_cell_def computeResults_def heatmap_push_def Let_def)

lemma heatmap_row_map:
  assumes "model = ''Black-Scholes'' \<or> model = ''Binomial Tree''"
  shows "heatmap_row erf model inp strikes vol j rows
         = (fst rows @ map (\<lambda>K. fst (grid_cell erf model inp vol K)) (drop j strikes),
            snd rows @ map (\<lambda>K. snd (grid_cell erf model inp vol K)) (drop j strikes))"
proof (induction "length strikes - j" arbitrary: j rows)
  case 0
  then show ?case by (subst heatmap_row.simps) simp
next
  case (Suc m)
  then have lt: "j < length strikes" by simp
  have dr: "drop j strikes = strikes ! j # drop (j + 1) strikes"
    using lt by (simp add: Cons_nth_drop_Suc)
  have ih: "\<And>rows'. heatmap_row erf model inp strikes vol (j + 1) rows'
         = (fst rows' @ map (\<lambda>K. fst (grid_cell erf model inp vol K)) (drop (j + 1) strikes),
            snd rows' @ map (\<lambda>K. snd (grid_cell erf model inp vol K)) (drop (j + 1) strikes))"
    using Suc.hyps(2) by (intro Suc.hyps(1)) simp
  have "heatmap_row erf model inp strikes vol j rows
        = heatmap_row erf model inp strikes vol (j + 1)
            (heatmap_push erf model inp (strikes ! j) vol rows)"
    using lt by (subst heatmap_row.simps) (simp only: if_True)
  also have "\<dots> = (fst rows @ map (\<lambda>K. fst (grid_cell erf model inp vol K)) (drop j strikes),
            snd rows @ map (\<lambda>K. snd (grid_cell erf model inp vol K)) (drop j strikes))"
    unfolding ih heatmap_push_grid_cell [OF assms] dr by simp
  finally show ?case .
qed

lemma heatmap_rows_map:
  assumes "model = ''Black-Scholes'' \<or> model = ''Binomial Tree''"
  shows "heatmap_rows erf model inp strikes vols i dat
         = (fst dat @ map (\<lambda>vol. map (\<lambda>K. fst (grid_cell erf model inp vol K)) strikes)
                        (drop i vols),
            snd dat @ map (\<lambda>vol. map (\<lambda>K. snd (grid_cell erf model inp vol K)) strikes)
                        (drop i vols))"
proof (induction "length vols - i" arbitrary: i dat)
  case 0
  then show ?case by (subst heatmap_rows.simps) simp
next
  case (Suc m)
  then have lt: "i < length vols" by simp
  have dr: "drop i vols = vols ! i # drop (i + 1) vols"
    using lt by (simp add: Cons_nth_drop_Suc)
  have ih: "\<And>dat'. heatmap_rows erf model inp strikes vols (i + 1) dat'
         = (fst dat' @ map (\<lambda>vol. map (\<lambda>K. fst (grid_cell erf model inp vol K)) strikes)
                        (drop (i + 1) vols),
            snd dat' @ map (\<lambda>vol. map (\<lambda>K. snd (grid_cell erf model inp vol K)) strikes)
                        (drop (i + 1) vols))"
    using Suc.hyps(2) by (intro Suc.hyps(1)) simp
  have "heatmap_rows erf model inp strikes vols i dat
        = heatmap_rows erf model inp strikes vols (i + 1)
            (fst dat @ [fst (heatmap_row erf model inp strikes (vols ! i) 0 ([], []))],
             snd dat @ [snd (heatmap_row erf model inp strikes (vols ! i) 0 ([], []))])"
    using lt by (subst heatmap_rows.simps) (simp only: if_True Let_def)
  also have "\<dots> = (fst dat @ map (\<lambda>vol. map (\<lambda>K. fst (grid_cell erf model inp vol K)) strikes)
                        (drop i vols),
            snd dat @ map (\<lambda>vol. map (\<lambda>K. snd (grid_cell erf model inp vol K)) strikes)
                        (drop i vols))"
    unfolding ih heatmap_row_map [OF assms] dr by simp
  finally show ?case .
qed

lemma generateHeatmapData_map:
  assumes "model = ''Black-Scholes'' \<or> model = ''Binomial Tree''"
  shows "generateHeatmapData erf model inp strikes vols
         = (map (\<lambda>vol. map (\<lambda>K. fst (grid_cell erf model inp vol K)) strikes) vols,
            map (\<lambda>vol. map (\<lambda>K. snd (grid_cell erf model inp vol K)) strikes) vols)"
  unfolding generateHeatmapData_def heatmap_rows_map [OF assms] by simp

lemma computeResults_Some:
  assumes "model = ''Black-Scholes'' \<or> model = ''Binomial Tree''"
  shows "computeResults erf model inp = Some (the (computeResults erf model inp))"
  using assms by (auto simp: computeResults_def Let_def)

lemma heatmap_push_v1_grid_cell:
  assumes "model = ''Black-Scholes'' \<or> model = ''Binomial Tree''"
  shows "heatmap_push_v1 erf model inp K vol rows
         = (fst rows @ [fst (grid_cell_v1 erf model inp vol K)],
            snd rows @ [snd (grid_cell_v1 erf model inp vol K)])"
  using assms by (auto simp: grid_cell_v1_def computeResults_v1_def heatmap_push_v1_def Let_def)

lemma heatmap_row_v1_map:
  assumes "model = ''Black-Scholes'' \<or> model = ''Binomial Tree''"
  shows "heatmap_row_v1 erf model inp strikes vol j rows
         = (fst rows @ map (\<lambda>K. fst (grid_cell_v1 erf model inp vol K)) (drop j strikes),
            snd rows @ map (\<lambda>K. snd (grid_cell_v1 erf model inp vol K)) (drop j strikes))"
proof (induction "length strikes - j" arbitrary: j rows)
  case 0
  then show ?case by (subst heatmap_row_v1.simps) simp
next
  case (Suc m)
  then have lt: "j < length strikes" by simp
  have dr: "drop j strikes = strikes ! j # drop (j + 1) strikes"
    using lt by (simp add: Cons_nth_drop_Suc)
  have ih: "\<And>rows'. heatmap_row_v1 erf model inp strikes vol (j + 1) rows'
         = (fst rows' @ map (\<lambda>K. fst (grid_cell_v1 erf model inp vol K)) (drop (j + 1) strikes),
            snd rows' @ map (\<lambda>K. snd (grid_cell_v1 erf model inp vol K)) (drop (j + 1) strikes))"
    using Suc.hyps(2) by (intro Suc.hyps(1)) simp
  have "heatmap_row_v1 erf model inp strikes vol j rows
        = heatmap_row_v1 erf model inp strikes vol (j + 1)
            (heatmap_push_v1 erf model inp (strikes ! j) vol rows)"
    using lt by (subst heatmap_row_v1.simps) (simp only: if_True)
  also have "\<dots> = (fst rows @ map (\<lambda>K. fst (grid_cell_v1 erf model inp vol K)) (drop j strikes),
            snd rows @ map (\<lambda>K. snd (grid_cell_v1 erf model inp vol K)) (drop j strikes))"
    unfolding ih heatmap_push_v1_grid_cell [OF assms] dr by simp
  finally show ?case .
qed

lemma heatmap_rows_v1_map:
  assumes "model = ''Black-Scholes'' \<or> model = ''Binomial Tree''"
  shows "heatmap_rows_v1 erf model inp strikes vols i dat
         = (fst dat @ map (\<lambda>vol. map (\<lambda>K. fst (grid_cell_v1 erf model inp vol K)) strikes)
                        (drop i vols),
            snd dat @ map (\<lambda>vol. map (\<lambda>K. snd (grid_cell_v1 erf model inp vol K)) strikes)
                        (drop i vols))"
proof (induction "length vols - i" arbitrary: i dat)
  case 0
  then show ?case by (subst heatmap_rows_v1.simps) simp
next
  case (Suc m)
  then have lt: "i < length vols" by simp
  have dr: "drop i vols = vols ! i # drop (i + 1) vols"
    using lt by (simp add: Cons_nth_drop_Suc)
  have ih: "\<And>dat'. heatmap_rows_v1 erf model inp strikes vols (i + 1) dat'
         = (fst dat' @ map (\<lambda>vol. map (\<lambda>K. fst (grid_cell_v1 erf model inp vol K)) strikes)
                        (drop (i + 1) vols),
            snd dat' @ map (\<lambda>vol. map (\<lambda>K. snd (grid_cell_v1 erf model inp vol K)) strikes)
                        (drop (i + 1) vols))"
    using Suc.hyps(2) by (intro Suc.hyps(1)) simp
  have "heatmap_rows_v1 erf model inp strikes vols i dat
        = heatmap_rows_v1 erf model inp strikes vols (i + 1)
            (fst dat @ [fst (heatmap_row_v1 erf model inp strikes (vols ! i) 0 ([], []))],
             snd dat @ [snd (heatmap_row_v1 erf model inp strikes (vols ! i) 0 ([], []))])"
    using lt by (subst heatmap_rows_v1.simps) (simp only: if_True Let_def)
  also have "\<dots> = (fst dat @ map (\<lambda>vol. map (\<lambda>K. fst (grid_cell_v1 erf model inp vol K)) strikes)
                        (drop i vols),
            snd dat @ map (\<lambda>vol. map (\<lambda>K. snd (grid_cell_v1 erf model inp vol K)) strikes)
                        (drop i vols))"
    unfolding ih heatmap_row_v1_map [OF assms] dr by simp
  finally show ?case .
qed

lemma generateHeatmapData_v1_map:
  assumes "model = ''Black-Scholes'' \<or> model = ''Binomial Tree''"
  shows "generateHeatmapData_v1 erf model inp strikes vols
         = (map (\<lambda>vol. map (\<lambda>K. fst (grid_cell_v1 erf model inp vol K)) strikes) vols,
            map (\<lambda>vol. map (\<lambda>K. snd (grid_cell_v1 erf model inp vol K)) strikes) vols)"
  unfolding generateHeatmapData_v1_def heatmap_rows_v1_map [OF assms] by simp

lemma computeResults_v1_Some:
  assumes "model = ''Black-Scholes'' \<or> model = ''Binomial Tree''"
  shows "computeResults_v1 erf model inp = Some (the (computeResults_v1 erf model inp))"
  using assms by (auto simp: computeResults_v1_def Let_def)

text \<open>
  C7. For a model that is one of the two names, any strike list and any volatility list,
  the call matrix and the put matrix of \<open>generateHeatmapData\<close> each have one row per
  volatility and one column per strike, and the pair of entries at row \<open>i\<close> and column
  \<open>j\<close> is exactly what the single-point computation gives for the strike \<open>strikes[j]\<close>
  and the volatility \<open>vols[i]\<close>. This holds in both versions of the page.
\<close>

theorem generateHeatmapData_shape_and_entries:
  assumes "model = ''Black-Scholes'' \<or> model = ''Binomial Tree''"
  shows "(let callData = fst (generateHeatmapData erf model inp strikes vols);
              putData = snd (generateHeatmapData erf model inp strikes vols)
          in length callData = length vols \<and> length putData = length vols
             \<and> (\<forall>i<length vols.
                  length (callData ! i) = length strikes \<and> length (putData ! i) = length strikes
                  \<and> (\<forall>j<length strikes.
                       computeResults erf model (inp\<lparr>in_K_specific := strikes ! j, in_sigma := vols ! i\<rparr>)
                       = Some (callData ! i ! j, putData ! i ! j))))
         \<and> (let callData = fst (generateHeatmapData_v1 erf model inp strikes vols);
              putData = snd (generateHeatmapData_v1 erf model inp strikes vols)
          in length callData = length vols \<and> length putData = length vols
             \<and> (\<forall>i<length vols.
                  length (callData ! i) = length strikes \<and> length (putData ! i) = length strikes
                  \<and> (\<forall>j<length strikes.
                       computeResults_v1 erf model (inp\<lparr>in_K_specific := strikes ! j, in_sigma := vols ! i\<rparr>)
                       = Some (callData ! i ! j, putData ! i ! j))))"
proof -
  have c2: "computeResults erf model (inp\<lparr>in_K_specific := K, in_sigma := vol\<rparr>)
            = Some (fst (grid_cell erf model inp vol K), snd (grid_cell erf model inp vol K))"
    for K vol
    using computeResults_Some [OF assms, of erf "inp\<lparr>in_K_specific := K, in_sigma := vol\<rparr>"]
    by (simp add: grid_cell_def)
  have c1: "computeResults_v1 erf model (inp\<lparr>in_K_specific := K, in_sigma := vol\<rparr>)
            = Some (fst (grid_cell_v1 erf model inp vol K), snd (grid_cell_v1 erf model inp vol K))"
    for K vol
    using computeResults_v1_Some [OF assms, of erf "inp\<lparr>in_K_specific := K, in_sigma := vol\<rparr>"]
    by (simp add: grid_cell_v1_def)
  show ?thesis
    unfolding Let_def generateHeatmapData_map [OF assms] generateHeatmapData_v1_map [OF assms]
    by (simp add: c1 c2)
qed

theorem generateHeatmapData_shape_and_entries_witness:
  "length (fst (generateHeatmapData erf_sample ''Black-Scholes'' default_inputs [Fin 90, Fin 100] [Fin 0.2])) = 1
   \<and> length (fst (generateHeatmapData erf_sample ''Black-Scholes'' default_inputs [Fin 90, Fin 100] [Fin 0.2]) ! 0) = 2
   \<and> computeResults erf_sample ''Black-Scholes'' (default_inputs\<lparr>in_K_specific := Fin 100, in_sigma := Fin 0.2\<rparr>)
       = Some (fst (generateHeatmapData erf_sample ''Black-Scholes'' default_inputs [Fin 90, Fin 100] [Fin 0.2]) ! 0 ! 1,
               snd (generateHeatmapData erf_sample ''Black-Scholes'' default_inputs [Fin 90, Fin 100] [Fin 0.2]) ! 0 ! 1)"
  using generateHeatmapData_shape_and_entries
          [of "''Black-Scholes''" erf_sample default_inputs "[Fin 90, Fin 100]" "[Fin 0.2]"]
  by (simp add: Let_def All_less_Suc)

section \<open>Properties of the strike axis\<close>









section \<open>Zero volatility\<close>

lemma normalCdf_special:
  "normalCdf erf PInf = Fin 1" "normalCdf erf NInf = Fin 0" "normalCdf erf NaN = NaN"
  by (simp_all add: normalCdf_def divide_num_def signed_inf_def signed_zero_def)

lemma forward_sign:
  fixes S K r q T :: real
  assumes "0 < S" "0 < K"
  shows "(0 < ln (S / K) + (r - q) * T) = (K * exp (- r * T) < S * exp (- q * T))"
    and "(ln (S / K) + (r - q) * T = 0) = (S * exp (- q * T) = K * exp (- r * T))"
proof -
  have a: "0 < S * exp (- q * T)" and b: "0 < K * exp (- r * T)"
    using assms by simp_all
  have la: "ln (S * exp (- q * T)) = ln S - q * T"
    using assms by (simp add: ln_mult)
  have lb: "ln (K * exp (- r * T)) = ln K - r * T"
    using assms by (simp add: ln_mult)
  have ld: "ln (S / K) = ln S - ln K"
    using assms by (simp add: ln_div)
  have F: "ln (S / K) + (r - q) * T = ln (S * exp (- q * T)) - ln (K * exp (- r * T))"
    unfolding la lb ld by (simp add: algebra_simps)
  show "(0 < ln (S / K) + (r - q) * T) = (K * exp (- r * T) < S * exp (- q * T))"
    unfolding F using ln_less_cancel_iff [OF b a] by simp
  show "(ln (S / K) + (r - q) * T = 0) = (S * exp (- q * T) = K * exp (- r * T))"
    unfolding F using ln_inj_iff [OF a b] by simp
qed

text \<open>
  With a zero volatility of either sign the quotient \<open>d1\<close> is \<open>NaN\<close> or an infinity,
  whose sign is that of the numerator for \<open>+0\<close> and the opposite one for \<open>-0\<close>, and
  \<open>d2\<close> is the same value.
\<close>

lemma blackScholes_zero_vol_d1:
  assumes "0 < S" "0 < K" "0 < T" "sigma = Fin 0 \<or> sigma = NZero"
  shows "blackScholes erf (Fin S) (Fin K) (Fin T) (Fin r) sigma (Fin q)
         = (let F = ln (S / K) + (r - q) * T;
                d1 = (if F = 0 then NaN else signed_inf ((F < 0) = negative sigma))
            in (Fin (S * exp (- q * T)) * normalCdf erf d1
                  - Fin (K * exp (- r * T)) * normalCdf erf d1,
                Fin (K * exp (- r * T)) * normalCdf erf (- d1)
                  - Fin (S * exp (- q * T)) * normalCdf erf (- d1)))"
proof -
  define F where "F = ln (S / K) + (r - q) * T"
  define d1 where "d1 = (if F = 0 then NaN else signed_inf ((F < 0) = negative sigma))"
  have pos: "0 < S / K" using assms by simp
  have sk: "\<not> S / K < 0" "S / K \<noteq> 0" using pos by linarith+
  have lg: "Math_log (Fin S / Fin K) = Fin (ln (S / K))"
    using sk assms(2) by (simp add: Fin_divide_pos)
  have sq: "Fin 0.5 * sigma * sigma = Fin 0"
    using assms(4) by (auto simp: times_num_def signed_zero_def)
  have num: "Math_log (Fin S / Fin K) + (Fin r - Fin q + Fin 0.5 * sigma * sigma) * Fin T
             = Fin F"
    unfolding lg sq using assms(3) by (simp add: Fin_times_pos_right F_def)
  have den: "sigma * Math_sqrt (Fin T) = sigma"
    using assms(3,4) by (auto simp: times_num_def signed_zero_def)
  have q: "Fin F / sigma = d1"
    using assms(4) by (auto simp: divide_num_def d1_def)
  have d2: "d1 - sigma = d1"
    using assms(4) by (auto simp: d1_def minus_num_def signed_inf_def)
  have disc: "Fin S * Math_exp (- Fin q * Fin T) = Fin (S * exp (- q * T))"
    "Fin K * Math_exp (- Fin r * Fin T) = Fin (K * exp (- r * T))"
    using assms(1-3) by (simp_all add: exp_neg_rate Fin_times_pos_left del: uminus_num.simps)
  show ?thesis
    unfolding blackScholes_def Let_def num den q d2 disc
    unfolding d1_def F_def ..
qed

lemma blackScholes_zero_vol:
  assumes "0 < S" "0 < K" "0 < T"
  shows "blackScholes erf (Fin S) (Fin K) (Fin T) (Fin r) (Fin 0) (Fin q)
         = (if S * exp (- q * T) = K * exp (- r * T) then (NaN, NaN)
            else (Fin (max 0 (S * exp (- q * T) - K * exp (- r * T))),
                  Fin (max 0 (K * exp (- r * T) - S * exp (- q * T)))))"
    and "blackScholes erf (Fin S) (Fin K) (Fin T) (Fin r) NZero (Fin q)
         = (if S * exp (- q * T) = K * exp (- r * T) then (NaN, NaN)
            else (Fin (min 0 (S * exp (- q * T) - K * exp (- r * T))),
                  Fin (min 0 (K * exp (- r * T) - S * exp (- q * T)))))"
proof -
  let ?F = "ln (S / K) + (r - q) * T"
  let ?A = "S * exp (- q * T)" and ?B = "K * exp (- r * T)"
  have A: "0 < ?A" and B: "0 < ?B" using assms by simp_all
  have one: "Fin a * Fin 1 = Fin a" for a
    by (simp add: Fin_times_pos_right)
  have zero: "0 < a \<Longrightarrow> Fin a * Fin 0 = Fin 0" for a
    by (simp add: Fin_times_pos_left)
  note ev = Let_def normalCdf_special nan_absorbs signed_inf_def one zero
  consider (zero) "?F = 0" | (pos) "0 < ?F" | (neg) "?F < 0" by linarith
  then have "blackScholes erf (Fin S) (Fin K) (Fin T) (Fin r) (Fin 0) (Fin q)
         = (if ?A = ?B then (NaN, NaN)
            else (Fin (max 0 (?A - ?B)), Fin (max 0 (?B - ?A))))
    \<and> blackScholes erf (Fin S) (Fin K) (Fin T) (Fin r) NZero (Fin q)
         = (if ?A = ?B then (NaN, NaN)
            else (Fin (min 0 (?A - ?B)), Fin (min 0 (?B - ?A))))"
  proof cases
    case zero
    then have "?A = ?B"
      using forward_sign(2) [OF assms(1,2)] by simp
    then show ?thesis
      using zero
      by (simp add: blackScholes_zero_vol_d1 [OF assms] ev)
  next
    case pos
    then have lt: "?B < ?A"
      using forward_sign(1) [OF assms(1,2)] by simp
    have F: "?F \<noteq> 0" "\<not> ?F < 0" using pos by linarith+
    show ?thesis
      using lt F assms(1,2)
      by (simp add: blackScholes_zero_vol_d1 [OF assms] ev max_def min_def)
  next
    case neg
    have F: "\<not> 0 < ?F" "?F \<noteq> 0" using neg by linarith+
    then have lt: "?A < ?B"
      using forward_sign [OF assms(1,2), of r q T] by linarith
    show ?thesis
      using lt F neg assms(1,2)
      by (simp add: blackScholes_zero_vol_d1 [OF assms] ev max_def min_def)
  qed
  then show "blackScholes erf (Fin S) (Fin K) (Fin T) (Fin r) (Fin 0) (Fin q)
         = (if ?A = ?B then (NaN, NaN)
            else (Fin (max 0 (?A - ?B)), Fin (max 0 (?B - ?A))))"
    and "blackScholes erf (Fin S) (Fin K) (Fin T) (Fin r) NZero (Fin q)
         = (if ?A = ?B then (NaN, NaN)
            else (Fin (min 0 (?A - ?B)), Fin (min 0 (?B - ?A))))"
    by simp_all
qed

text \<open>
  In the lattice a zero volatility gives \<open>u = d = 1\<close> and a weight \<open>p\<close> that is
  \<open>NaN\<close> or infinite; the terminal values are all equal, and one backward step turns
  them into \<open>NaN\<close>.
\<close>

lemma induction_step_replicate:
  "induction_step ar r dt p (replicate (Suc k) x)
   = replicate k (ar_mul ar (ar_exp ar (ar_mul ar (ar_neg ar r) dt))
                    (ar_add ar (ar_mul ar p x) (ar_mul ar (ar_sub ar (ar_int ar 1) p) x)))"
  unfolding induction_step_def by (intro nth_equalityI) (simp_all del: upt_Suc replicate_Suc)

lemma induction_step_NaN:
  "induction_step num_arith r dt p (replicate (Suc k) NaN) = replicate k NaN"
  unfolding induction_step_replicate by (simp add: num_arith_def nan_absorbs)

lemma induction_steps_NaN:
  "((induction_step num_arith r dt p) ^^ m) (replicate (m + k) NaN) = replicate k NaN"
proof (induction m)
  case 0
  show ?case by simp
next
  case (Suc m)
  have "((induction_step num_arith r dt p) ^^ Suc m) (replicate (Suc m + k) NaN)
        = ((induction_step num_arith r dt p) ^^ m)
            (induction_step num_arith r dt p (replicate (Suc (m + k)) NaN))"
    by (simp only: funpow_Suc_right o_apply add_Suc)
  then show ?case
    by (simp only: induction_step_NaN Suc.IH)
qed

lemma infinite_weight_step:
  assumes "p = NaN \<or> p = PInf \<or> p = NInf" "0 \<le> a"
  shows "disc * (p * Fin a + (Fin 1 - p) * Fin a) = NaN"
proof -
  have "p * Fin a + (Fin 1 - p) * Fin a = NaN"
    using assms by (auto simp: minus_num_def times_num_def signed_inf_def)
  then show ?thesis by (simp add: nan_absorbs)
qed

lemma Math_pow_one: "0 \<le> n \<Longrightarrow> Math_pow (Fin 1) n = Fin 1"
  by (simp add: Math_pow.simps)

lemma binomialTree_zero_vol:
  assumes "0 < T" "1 \<le> N" "sigma = Fin 0 \<or> sigma = NZero"
  shows "binomialTree (Fin S) (Fin K) (Fin T) (Fin r) sigma (Fin q) (int N) optionType
         = Number NaN"
proof -
  define side where "side = (if optionType = ''call'' then Call else Put)"
  define dt where "dt = T / real N"
  define v where "v = (case side of Call \<Rightarrow> max 0 (S - K) | Put \<Rightarrow> max 0 (K - S))"
  define p where "p = crr_p num_arith (Fin r) (Fin q) sigma (Fin dt)"
  have dt_pos: "0 < dt" using assms by (simp add: dt_def)
  have dt: "crr_dt num_arith (Fin T) N = Fin dt"
    using assms by (simp add: crr_dt_def num_arith_def dt_def Fin_divide_pos)
  have u: "crr_u num_arith sigma (Fin dt) = Fin 1"
    using dt_pos assms(3) by (auto simp: crr_u_def num_arith_def times_num_def signed_zero_def)
  have d: "crr_d num_arith sigma (Fin dt) = Fin 1"
    by (simp add: crr_d_def u) (simp add: num_arith_def Fin_divide_pos)
  have p_inf: "p = NaN \<or> p = PInf \<or> p = NInf"
    unfolding p_def crr_p_def u d
    by (simp add: num_arith_def Fin_times_pos_right dt_pos divide_num_def signed_inf_def)
  have v0: "0 \<le> v" by (cases side) (simp_all add: v_def)
  have prices: "terminal_prices num_arith (Fin S) (Fin 1) (Fin 1) N = replicate (N + 1) (Fin S)"
    unfolding terminal_prices_def
    by (intro nth_equalityI)
       (simp_all add: num_arith_def Math_pow_one Fin_times_pos_right del: upt_Suc replicate_Suc)
  have pay: "terminal_payoff num_arith side (Fin K) (Fin S) = Fin v"
    by (cases side) (simp_all add: v_def num_arith_def)
  obtain k where N: "N = Suc k" using assms(2) by (cases N) simp_all
  have first: "induction_step num_arith (Fin r) (Fin dt) p (replicate (Suc N) (Fin v))
               = replicate N NaN"
    unfolding induction_step_replicate
    using infinite_weight_step [OF p_inf v0] by (simp add: num_arith_def)
  have "((induction_step num_arith (Fin r) (Fin dt) p) ^^ N) (replicate (N + 1) (Fin v))
        = ((induction_step num_arith (Fin r) (Fin dt) p) ^^ k) (replicate (k + 1) NaN)"
    unfolding N by (simp only: funpow_Suc_right o_apply Suc_eq_plus1 [symmetric] first [unfolded N])
  also have "\<dots> = replicate 1 NaN"
    by (rule induction_steps_NaN)
  finally have "lattice_price num_arith (Fin S) (Fin K) (Fin T) (Fin r) sigma (Fin q) N side = NaN"
    by (simp add: lattice_price_def Let_def dt u d prices pay p_def)
  then show ?thesis
    using binomialTree_in_lattice [of num_arith "Fin S" "Fin K" "Fin T" "Fin r" sigma "Fin q" N
        optionType]
    by (simp add: binomialTree_num side_def)
qed

text \<open>
  C3, as amended. For finite \<open>S > 0\<close>, \<open>K > 0\<close>, \<open>T > 0\<close> and a volatility that is
  exactly zero neither pricer detects the degenerate case and neither has an error to
  report. \<open>blackScholes\<close> divides by the zero: when \<open>S e\<^sup>-\<^sup>q\<^sup>T\<close> equals \<open>K e\<^sup>-\<^sup>r\<^sup>T\<close> both
  prices are \<open>NaN\<close>; otherwise its infinite \<open>d1\<close> and \<open>d2\<close> saturate the distribution
  function, and for the volatility \<open>+0\<close> it returns the zero-volatility limit prices
  \<open>max(0, S e\<^sup>-\<^sup>q\<^sup>T - K e\<^sup>-\<^sup>r\<^sup>T)\<close> and \<open>max(0, K e\<^sup>-\<^sup>r\<^sup>T - S e\<^sup>-\<^sup>q\<^sup>T)\<close>, while for the
  volatility \<open>-0\<close> the infinities have the opposite sign and it returns
  \<open>min(0, S e\<^sup>-\<^sup>q\<^sup>T - K e\<^sup>-\<^sup>r\<^sup>T)\<close> and \<open>min(0, K e\<^sup>-\<^sup>r\<^sup>T - S e\<^sup>-\<^sup>q\<^sup>T)\<close>. \<open>binomialTree\<close> with
  \<open>N \<ge> 1\<close> steps returns \<open>NaN\<close> for either zero, so the two pricers follow no common
  policy.
\<close>

theorem zero_volatility_behaviour:
  assumes "0 < S" "0 < K" "0 < T" "1 \<le> N"
  shows "blackScholes erf (Fin S) (Fin K) (Fin T) (Fin r) (Fin 0) (Fin q)
           = (if S * exp (- q * T) = K * exp (- r * T) then (NaN, NaN)
              else (Fin (max 0 (S * exp (- q * T) - K * exp (- r * T))),
                    Fin (max 0 (K * exp (- r * T) - S * exp (- q * T)))))
         \<and> blackScholes erf (Fin S) (Fin K) (Fin T) (Fin r) NZero (Fin q)
           = (if S * exp (- q * T) = K * exp (- r * T) then (NaN, NaN)
              else (Fin (min 0 (S * exp (- q * T) - K * exp (- r * T))),
                    Fin (min 0 (K * exp (- r * T) - S * exp (- q * T)))))
         \<and> binomialTree (Fin S) (Fin K) (Fin T) (Fin r) (Fin 0) (Fin q) (int N) optionType
             = Number NaN
         \<and> binomialTree (Fin S) (Fin K) (Fin T) (Fin r) NZero (Fin q) (int N) optionType
             = Number NaN"
  using blackScholes_zero_vol [OF assms(1-3)] binomialTree_zero_vol [OF assms(3,4)] by simp

theorem zero_volatility_behaviour_witness:
  "(0::real) < 2 \<and> (0::real) < 1 \<and> (1::nat) \<le> 1
   \<and> blackScholes erf_sample (Fin 2) (Fin 1) (Fin 1) (Fin 0) (Fin 0) (Fin 0) = (Fin 1, Fin 0)
   \<and> blackScholes erf_sample (Fin 2) (Fin 1) (Fin 1) (Fin 0) NZero (Fin 0) = (Fin 0, Fin (- 1))
   \<and> binomialTree (Fin 2) (Fin 1) (Fin 1) (Fin 0) (Fin 0) (Fin 0) 1 ''call'' = Number NaN
   \<and> binomialTree (Fin 2) (Fin 1) (Fin 1) (Fin 0) NZero (Fin 0) 1 ''call'' = Number NaN"
  using zero_volatility_behaviour [of 2 1 1 1 erf_sample 0 0 "''call''"] by simp

text \<open>
  C3 as stated fails: at \<open>S = K = 1\<close>, \<open>T = 1\<close>, \<open>r = q = 0\<close> and volatility 0 both
  pricers return \<open>NaN\<close>, silently.
\<close>

theorem zero_volatility_counterexample:
  "blackScholes erf_sample (Fin 1) (Fin 1) (Fin 1) (Fin 0) (Fin 0) (Fin 0) = (NaN, NaN)
   \<and> binomialTree (Fin 1) (Fin 1) (Fin 1) (Fin 0) (Fin 0) (Fin 0) 1 ''call'' = Number NaN"
  using blackScholes_zero_vol(1) [of 1 1 1 erf_sample 0 0]
    binomialTree_zero_vol [of 1 1 "Fin 0" 1 1 0 0 "''call''"] by simp

section \<open>Parameters outside their domain\<close>

lemma blackScholes_negative_time:
  assumes "T < 0"
  shows "blackScholes erf S K (Fin T) r sigma q = (NaN, NaN)"
  using assms
  by (simp add: blackScholes_def Let_def normalCdf_special nan_absorbs)

lemma blackScholes_negative_ratio:
  assumes "S / K < 0"
  shows "blackScholes erf (Fin S) (Fin K) T r sigma q = (NaN, NaN)"
proof -
  have nz: "S \<noteq> 0" "K \<noteq> 0" using assms by auto
  have lg: "Math_log (Fin S / Fin K) = NaN"
    using assms by (simp add: Fin_divide_nonzero [OF nz])
  show ?thesis
    by (simp add: blackScholes_def Let_def lg normalCdf_special nan_absorbs)
qed

lemma binomialTree_negative_steps:
  assumes "N < 0"
  shows "binomialTree S K T r sigma q N optionType = Undefined"
proof -
  have "prices_loop S u d N 0 [] = []" for u d
    using assms by (subst prices_loop.simps) simp
  moreover have "outer_loop r dt p (N - 1) [] = []" for dt p
    using assms by (subst outer_loop.simps) simp
  ultimately show ?thesis
    by (simp add: binomialTree_def Let_def js_get_def)
qed

lemma binomialTree_zero_steps:
  "binomialTree (Fin S) K T r sigma q 0 optionType = Number (payoff optionType K (Fin S))"
proof -
  have "prices_loop (Fin S) u d 0 0 [] = [Fin S]" for u d
    by (subst prices_loop.simps, subst prices_loop.simps)
       (simp add: js_set_def Math_pow.simps Fin_times_pos_right)
  moreover have "outer_loop r dt p (0 - 1) xs = xs" for dt p xs
    by (subst outer_loop.simps) simp
  ultimately show ?thesis
    by (simp add: binomialTree_def Let_def js_get_def)
qed

text \<open>
  C6, as amended. The pricers validate nothing and have no error to report: a call with
  a parameter outside its domain evaluates the same code and returns a value. With a
  negative volatility (and \<open>S\<close>, \<open>K\<close>, \<open>T > 0\<close>) \<open>blackScholes\<close> returns the closed-form
  values at that volatility; with a negative time to maturity, or with spot and strike of
  opposite signs, it returns \<open>NaN\<close> for both prices; with a negative step count
  \<open>binomialTree\<close> returns \<open>undefined\<close>, and with zero steps the payoff at the spot
  price.
\<close>

theorem no_parameter_validation:
  assumes "sigma < 0" "0 < S" "0 < K" "0 < T" "T' < 0" "N < 0" "S1 / K1 < 0"
  shows "blackScholes erf (Fin S) (Fin K) (Fin T) (Fin r) (Fin sigma) (Fin q)
           = (Fin (bsm_call erf S K T r sigma q), Fin (bsm_put erf S K T r sigma q))
         \<and> blackScholes erf S' K' (Fin T') r' sigma' q' = (NaN, NaN)
         \<and> blackScholes erf (Fin S1) (Fin K1) T'' r' sigma' q' = (NaN, NaN)
         \<and> binomialTree S' K' T'' r' sigma' q' N optionType = Undefined
         \<and> binomialTree (Fin S) K' T'' r' sigma' q' 0 optionType
             = Number (payoff optionType K' (Fin S))"
proof -
  have "sigma \<noteq> 0" using assms(1) by simp
  then show ?thesis
    using blackScholes_Fin [OF assms(2-4)] blackScholes_negative_time [OF assms(5)]
      blackScholes_negative_ratio [OF assms(7)]
      binomialTree_negative_steps [OF assms(6)] binomialTree_zero_steps
    by simp
qed

theorem no_parameter_validation_witness:
  "(- 1::real) < 0 \<and> (- 1::int) < 0 \<and> (- 1::real) / 1 < 0
   \<and> blackScholes erf_sample (Fin 1) (Fin 1) (Fin 1) (Fin 0) (Fin (- 1)) (Fin 0)
       = (Fin (bsm_call erf_sample 1 1 1 0 (- 1) 0), Fin (bsm_put erf_sample 1 1 1 0 (- 1) 0))
   \<and> blackScholes erf_sample (Fin 1) (Fin 1) (Fin (- 1)) (Fin 0) (Fin 1) (Fin 0) = (NaN, NaN)
   \<and> blackScholes erf_sample (Fin (- 1)) (Fin 1) (Fin 1) (Fin 0) (Fin 1) (Fin 0) = (NaN, NaN)
   \<and> binomialTree (Fin 1) (Fin 1) (Fin 1) (Fin 0) (Fin 1) (Fin 0) (- 1) ''call'' = Undefined
   \<and> binomialTree (Fin 1) (Fin 3) (Fin 1) (Fin 0) (Fin 1) (Fin 0) 0 ''put'' = Number (Fin 2)"
proof -
  have h: "(- 1::real) < 0" "(0::real) < 1" "(- 1::int) < 0" "(- 1::real) / 1 < 0" by simp_all
  have pay: "payoff ''put'' (Fin 3) (Fin 1) = Fin 2"
    by (simp add: payoff_def)
  note t = no_parameter_validation [OF h(1) h(2) h(2) h(2) h(1) h(3) h(4)]
  from t [where erf = erf_sample and r = 0 and q = 0 and S' = "Fin 1" and K' = "Fin 1"
        and r' = "Fin 0" and sigma' = "Fin 1" and q' = "Fin 0" and T'' = "Fin 1"
        and optionType = "''call''"]
    t [where erf = erf_sample and r = 0 and q = 0 and S' = "Fin 1" and K' = "Fin 3"
        and r' = "Fin 0" and sigma' = "Fin 1" and q' = "Fin 0" and T'' = "Fin 1"
        and optionType = "''put''"]
  show ?thesis by (simp add: pay)
qed

text \<open>
  C6 as stated fails: with volatility \<open>-1\<close> (and \<open>S = K = T = 1\<close>, \<open>r = q = 0\<close>)
  \<open>blackScholes\<close> reports no error and returns a pair of finite prices, computed by
  the closed form.
\<close>

theorem negative_volatility_priced:
  "blackScholes erf_sample (Fin 1) (Fin 1) (Fin 1) (Fin 0) (Fin (- 1)) (Fin 0)
     = (Fin (bsm_call erf_sample 1 1 1 0 (- 1) 0), Fin (bsm_put erf_sample 1 1 1 0 (- 1) 0))"
  using blackScholes_Fin [of 1 1 1 "- 1" erf_sample 0 0] by simp

section \<open>The sign of the prices\<close>

lemma Math_max_zero_sign: "not_negative (Math_max x (Fin 0))"
  by (cases x) (simp_all add: max_def)

lemma heatmap_push_sign:
  assumes "list_all not_negative (fst rows)" "list_all not_negative (snd rows)"
  shows "list_all not_negative (fst (heatmap_push erf model inp K vol rows))
         \<and> list_all not_negative (snd (heatmap_push erf model inp K vol rows))"
  using assms by (simp add: heatmap_push_def Let_def Math_max_zero_sign)

lemma heatmap_row_sign:
  assumes "list_all not_negative (fst rows)" "list_all not_negative (snd rows)"
  shows "list_all not_negative (fst (heatmap_row erf model inp strikes vol j rows))
         \<and> list_all not_negative (snd (heatmap_row erf model inp strikes vol j rows))"
  using assms
proof (induction "length strikes - j" arbitrary: j rows)
  case 0
  then show ?case by (subst (1 2) heatmap_row.simps) simp
next
  case (Suc m)
  then have lt: "j < length strikes" by simp
  have unf: "heatmap_row erf model inp strikes vol j rows
        = heatmap_row erf model inp strikes vol (j + 1)
            (heatmap_push erf model inp (strikes ! j) vol rows)"
    using lt by (subst heatmap_row.simps) (simp only: if_True)
  have m: "m = length strikes - (j + 1)" using Suc.hyps(2) by simp
  show ?case
    unfolding unf
    using heatmap_push_sign [OF Suc.prems, of erf model inp "strikes ! j" vol]
    by (intro Suc.hyps(1) [OF m]) simp_all
qed

lemma heatmap_rows_sign:
  assumes "list_all (list_all not_negative) (fst dat)"
    "list_all (list_all not_negative) (snd dat)"
  shows "list_all (list_all not_negative) (fst (heatmap_rows erf model inp strikes vols i dat))
         \<and> list_all (list_all not_negative)
             (snd (heatmap_rows erf model inp strikes vols i dat))"
  using assms
proof (induction "length vols - i" arbitrary: i dat)
  case 0
  then show ?case by (subst (1 2) heatmap_rows.simps) simp
next
  case (Suc m)
  then have lt: "i < length vols" by simp
  let ?rows = "heatmap_row erf model inp strikes (vols ! i) 0 ([], [])"
  have unf: "heatmap_rows erf model inp strikes vols i dat
        = heatmap_rows erf model inp strikes vols (i + 1)
            (fst dat @ [fst ?rows], snd dat @ [snd ?rows])"
    using lt by (subst heatmap_rows.simps) (simp only: if_True Let_def)
  have m: "m = length vols - (i + 1)" using Suc.hyps(2) by simp
  have row: "list_all not_negative (fst ?rows) \<and> list_all not_negative (snd ?rows)"
    by (rule heatmap_row_sign) simp_all
  show ?case
    unfolding unf
    using Suc.prems row by (intro Suc.hyps(1) [OF m]) simp_all
qed

text \<open>
  C4, as amended. The prices that the second version of the page reports are never
  negative, for every input and both models: each call price and each put price of the
  single-point computation and of the two grids is \<open>\<ge> 0\<close> or \<open>NaN\<close>, because the
  call sites pass every pricer result through \<open>Math.max(price, 0)\<close>, which lets \<open>NaN\<close>
  through. The single-point computation yields no prices only for a model that is
  neither of the two names. The pricers themselves do not clamp.
\<close>

theorem clamped_prices_never_negative:
  "(case computeResults erf model inp of
      None \<Rightarrow> model \<noteq> ''Black-Scholes'' \<and> model \<noteq> ''Binomial Tree''
    | Some prices \<Rightarrow> not_negative (fst prices) \<and> not_negative (snd prices))
   \<and> list_all (list_all not_negative)
       (fst (generateHeatmapData erf model inp strikes vols))
   \<and> list_all (list_all not_negative)
       (snd (generateHeatmapData erf model inp strikes vols))"
proof -
  have "case computeResults erf model inp of
      None \<Rightarrow> model \<noteq> ''Black-Scholes'' \<and> model \<noteq> ''Binomial Tree''
    | Some prices \<Rightarrow> not_negative (fst prices) \<and> not_negative (snd prices)"
    by (simp add: computeResults_def Let_def Math_max_zero_sign)
  moreover have "list_all (list_all not_negative)
       (fst (generateHeatmapData erf model inp strikes vols))
   \<and> list_all (list_all not_negative)
       (snd (generateHeatmapData erf model inp strikes vols))"
    unfolding generateHeatmapData_def by (rule heatmap_rows_sign) simp_all
  ultimately show ?thesis by simp
qed

theorem clamped_prices_never_negative_witness:
  "computeResults erf_sample ''Binomial Tree'' (default_inputs\<lparr>in_sigma := Fin 0\<rparr>)
     = Some (NaN, NaN)
   \<and> not_negative NaN
   \<and> list_all (list_all not_negative)
       (fst (generateHeatmapData erf_sample ''Black-Scholes'' default_inputs
               [Fin 90, Fin 100] [Fin 0.2]))"
proof -
  have nan: "binomialTree (Fin S) (Fin K) (Fin 1) (Fin r) (Fin 0) (Fin 0) 100 t = Number NaN"
    for S K r t
    using binomialTree_zero_vol [of 1 100 "Fin 0" S K r 0 t] by simp
  have clamp: "computeResults erf_sample ''Binomial Tree'' (default_inputs\<lparr>in_sigma := Fin 0\<rparr>)
               = Some (NaN, NaN)"
    by (simp add: computeResults_def Let_def default_inputs_def nan)
  from clamped_prices_never_negative [where erf = erf_sample and model = "''Binomial Tree''"
      and inp = "default_inputs\<lparr>in_sigma := Fin 0\<rparr>" and strikes = "[Fin 90, Fin 100]"
      and vols = "[Fin 0.2]"]
    clamped_prices_never_negative [where erf = erf_sample and model = "''Black-Scholes''"
      and inp = default_inputs and strikes = "[Fin 90, Fin 100]" and vols = "[Fin 0.2]"]
  show ?thesis by (simp add: clamp)
qed

text \<open>
  C4 as stated fails: the pricers do not clamp. With \<open>S = K = 1\<close>, \<open>T = 1\<close>, \<open>r = 2\<close>,
  \<open>sigma = 1\<close>, \<open>q = 0\<close> and one step the lattice has \<open>u = e\<close>, \<open>d = 1/e\<close> and a weight
  \<open>p = (e\<^sup>2 - 1/e) / (e - 1/e)\<close> above 1, and the put price \<open>binomialTree\<close> returns,
  \<open>e\<^sup>-\<^sup>2 (p \<cdot> 0 + (1 - p) (1 - 1/e))\<close>, is negative. With the volatility \<open>-0\<close>, which
  passes a test \<open>sigma >= 0\<close>, \<open>blackScholes(2, 1, 1, 0, -0, 0)\<close> returns the put price
  \<open>-1\<close>. And at volatility 0 \<open>binomialTree\<close> returns \<open>NaN\<close>, which is not \<open>\<ge> 0\<close>.
\<close>

theorem negative_lattice_price:
  "binomialTree (Fin 1) (Fin 1) (Fin 1) (Fin 2) (Fin 1) (Fin 0) 1 ''put''
     = Number (Fin (exp (- 2) * ((1 - (exp 2 - 1 / exp 1) / (exp 1 - 1 / exp 1))
                                  * (1 - 1 / exp 1))))
   \<and> exp (- 2) * ((1 - (exp 2 - 1 / exp 1) / (exp 1 - 1 / exp 1)) * (1 - 1 / exp 1))
       < (0::real)
   \<and> \<not> not_negative (ToNumber (binomialTree (Fin 1) (Fin 1) (Fin 1) (Fin 2) (Fin 1) (Fin 0) 1
                                  ''put''))
   \<and> blackScholes erf_sample (Fin 2) (Fin 1) (Fin 1) (Fin 0) NZero (Fin 0) = (Fin 0, Fin (- 1))
   \<and> binomialTree (Fin 100.42) (Fin 93.45) (Fin 1) (Fin 0.05) (Fin 0) (Fin 0) 100 ''call''
       = Number NaN"
proof -
  define e :: real where "e = exp 1"
  define p where "p = (exp 2 - 1 / e) / (e - 1 / e)"
  have e1: "1 < e" by (simp add: e_def)
  have e0: "0 < e" using e1 by simp
  have d1: "1 / e < 1" using e1 by simp
  have d0: "0 < 1 / e" using e0 by simp
  have ud: "0 < e - 1 / e" using e1 d1 by linarith
  have e2: "e < exp 2" unfolding e_def by simp
  have "e - 1 / e < exp 2 - 1 / e" using e2 by simp
  then have p1: "1 < p"
    using ud by (simp add: p_def pos_less_divide_eq)
  have neg: "(1 - p) * (1 - 1 / e) < 0"
    using p1 d1 by (simp add: mult_less_0_iff)
  then have price_neg: "exp (- 2) * ((1 - p) * (1 - 1 / e)) < 0"
    by (simp add: mult_less_0_iff)
  have dt: "crr_dt num_arith (Fin 1) 1 = Fin 1"
    by (simp add: crr_dt_def num_arith_def Fin_divide_pos)
  have u: "crr_u num_arith (Fin 1) (Fin 1) = Fin e"
    by (simp add: crr_u_def num_arith_def Fin_times_pos_right e_def)
  have d: "crr_d num_arith (Fin 1) (Fin 1) = Fin (1 / e)"
    unfolding crr_d_def u using e0 by (simp add: num_arith_def Fin_divide_pos)
  have ex: "Math_exp (Fin 2 * Fin 1) = Fin (exp 2)"
    by (simp add: Fin_times_pos_right)
  have pp: "crr_p num_arith (Fin 2) (Fin 0) (Fin 1) (Fin 1) = Fin p"
    unfolding crr_p_def u d using ud
    by (simp add: num_arith_def ex Fin_divide_pos p_def)
  have pw: "Math_pow (Fin a) 1 = Fin a" for a
    by (simp add: Math_pow.simps)
  have terminal: "terminal_prices num_arith (Fin 1) (Fin e) (Fin (1 / e)) 1 = [Fin e, Fin (1 / e)]"
    using e0 d0
    by (simp add: terminal_prices_def num_arith_def pw Math_pow.simps Fin_times_pos_left)
  have pay: "map (terminal_payoff num_arith Put (Fin 1)) [Fin e, Fin (1 / e)]
             = [Fin 0, Fin (1 - 1 / e)]"
    using e1 d1 by (simp add: num_arith_def max_def)
  have p0: "Fin p * Fin 0 = Fin 0"
    using p1 by (simp add: Fin_times_pos_left)
  have gap: "0 < 1 - 1 / e" using d1 by linarith
  have rest: "(Fin 1 - Fin p) * Fin (1 - 1 / e) = Fin ((1 - p) * (1 - 1 / e))"
    unfolding Fin_minus by (rule Fin_times_pos_right [OF gap])
  have disc: "Math_exp (- Fin 2 * Fin 1) = Fin (exp (- 2))"
    by (simp add: Fin_times_pos_right)
  have step: "induction_step num_arith (Fin 2) (Fin 1) (Fin p) [Fin 0, Fin (1 - 1 / e)]
              = [Fin (exp (- 2) * ((1 - p) * (1 - 1 / e)))]"
    unfolding induction_step_def
    by (simp add: num_arith_def p0 rest disc Fin_times_pos_left del: uminus_num.simps Fin_minus)
  have "lattice_price num_arith (Fin 1) (Fin 1) (Fin 1) (Fin 2) (Fin 1) (Fin 0) 1 Put
        = Fin (exp (- 2) * ((1 - p) * (1 - 1 / e)))"
    unfolding lattice_price_def Let_def dt u d pp terminal pay by (simp add: step)
  then have put: "binomialTree (Fin 1) (Fin 1) (Fin 1) (Fin 2) (Fin 1) (Fin 0) 1 ''put''
        = Number (Fin (exp (- 2) * ((1 - p) * (1 - 1 / e))))"
    using binomialTree_in_lattice [of num_arith "Fin 1" "Fin 1" "Fin 1" "Fin 2" "Fin 1" "Fin 0" 1
        "''put''"]
    by (simp add: binomialTree_num)
  have bs: "blackScholes erf_sample (Fin 2) (Fin 1) (Fin 1) (Fin 0) NZero (Fin 0)
            = (Fin 0, Fin (- 1))"
    using blackScholes_zero_vol(2) [of 2 1 1 erf_sample 0 0] by simp
  have nan: "binomialTree (Fin S) (Fin K) (Fin 1) (Fin r) (Fin 0) (Fin 0) 100 t = Number NaN"
    for S K r t
    using binomialTree_zero_vol [of 1 100 "Fin 0" S K r 0 t] by simp
  show ?thesis
    using put price_neg bs nan unfolding p_def e_def by simp
qed


end
